theory Spec2Isabelle
  imports Main "HOL-Library.Finite_Map"
begin

section \<open>Python values, exceptions and strings\<close>

text \<open>
  The exception classes that the console and the endpoint client raise or catch. A
  constructor stands for the class and its subclasses (\<open>SocketError\<close> is
  \<^verbatim>\<open>socket.error\<close>, \<open>HttpError\<close> is \<^verbatim>\<open>apiclient.errors.HttpError\<close>).
  \<open>KeyboardInterrupt\<close> and \<open>SystemExit\<close> derive from \<^verbatim>\<open>BaseException\<close> only,
  so \<^verbatim>\<open>except Exception\<close> does not catch them.
\<close>

datatype exc_class =
    ConsoleArgumentError | KeyError | ValueError | TypeError | AttributeError
  | SocketError | RemoteOperationException | HttpLib2Error | HttpError
  | OtherException string
  | KeyboardInterrupt | SystemExit

text \<open>\<open>Exc c m\<close> is a raised instance \<open>e\<close> with \<open>type(e)\<close> in class \<open>c\<close> and \<open>str(e) = m\<close>.\<close>

datatype exception = Exc exc_class string

fun class_name :: "exc_class \<Rightarrow> string" where
  "class_name ConsoleArgumentError = ''ConsoleArgumentError''"
| "class_name KeyError = ''KeyError''"
| "class_name ValueError = ''ValueError''"
| "class_name TypeError = ''TypeError''"
| "class_name AttributeError = ''AttributeError''"
| "class_name SocketError = ''error''"
| "class_name RemoteOperationException = ''RemoteOperationException''"
| "class_name HttpLib2Error = ''HttpLib2Error''"
| "class_name HttpError = ''HttpError''"
| "class_name (OtherException n) = n"
| "class_name KeyboardInterrupt = ''KeyboardInterrupt''"
| "class_name SystemExit = ''SystemExit''"

fun is_Exception :: "exc_class \<Rightarrow> bool" where
  "is_Exception KeyboardInterrupt = False"
| "is_Exception SystemExit = False"
| "is_Exception _ = True"

text \<open>Decimal rendering of integers, as \<^verbatim>\<open>"%s" % n\<close> and \<^verbatim>\<open>str(n)\<close> give it.\<close>

definition digit_char :: "nat \<Rightarrow> char" where
  "digit_char n = ''0123456789'' ! (n mod 10)"

function str_nat :: "nat \<Rightarrow> string" where
  "str_nat n = (if n < 10 then [digit_char n] else str_nat (n div 10) @ [digit_char n])"
  by pat_completeness auto
termination
  by (relation "measure (\<lambda>n. n)") auto

definition str_int :: "int \<Rightarrow> string" where
  "str_int i = (if i < 0 then CHR ''-'' # str_nat (nat (- i)) else str_nat (nat i))"

text \<open>
  \<^verbatim>\<open>int(s)\<close> on a byte string: surrounding whitespace is dropped, one sign is allowed,
  and the rest must be one or more decimal digits; anything else raises ValueError (its
  message quotes the string).
\<close>

definition is_space :: "char \<Rightarrow> bool" where
  "is_space c = (c \<in> set [CHR '' '', CHR 0x09, CHR 0x0A, CHR 0x0B, CHR 0x0C, CHR 0x0D])"

definition strip :: "string \<Rightarrow> string" where
  "strip s = rev (dropWhile is_space (rev (dropWhile is_space s)))"

definition is_digit :: "char \<Rightarrow> bool" where
  "is_digit c = (c \<in> set ''0123456789'')"

definition digit_val :: "char \<Rightarrow> nat" where
  "digit_val c = of_char c - 48"

definition digits_val :: "string \<Rightarrow> nat" where
  "digits_val ds = foldl (\<lambda>acc c. 10 * acc + digit_val c) 0 ds"

definition py_int :: "string \<Rightarrow> exception + int" where
  "py_int s =
     (let t = strip s;
          neg = (t \<noteq> [] \<and> hd t = CHR ''-'');
          ds = (if t \<noteq> [] \<and> (hd t = CHR ''-'' \<or> hd t = CHR ''+'') then tl t else t)
      in if ds \<noteq> [] \<and> list_all is_digit ds
         then Inr (if neg then - int (digits_val ds) else int (digits_val ds))
         else Inl (Exc ValueError (''invalid literal for int() with base 10: '' @ s)))"

text \<open>\<^verbatim>\<open>s.split(c)\<close> for a one-character separator: never empty, keeps empty fields.\<close>

fun split_on :: "char \<Rightarrow> string \<Rightarrow> string list" where
  "split_on c [] = [[]]"
| "split_on c (x # xs) =
     (if x = c then [] # split_on c xs
      else (case split_on c xs of
              w # ws \<Rightarrow> (x # w) # ws
            | [] \<Rightarrow> [[x]]))"

section \<open>Threads, hosts and the console state\<close>

record host =
  hostname :: string

datatype pyval = PStr string | PHost host

text \<open>The call a background thread was created for: \<^verbatim>\<open>Thread(target=..., args=...)\<close>.\<close>

datatype loop_call =
    UpdateBuildLoop_call string string string string int
  | UpdateConfigLoop_call string string string string string int
  | UpdateDeviceRepeat_call string host int

text \<open>
  A \<^verbatim>\<open>threading.Thread\<close> object as the console uses it. \<open>keep_running\<close> is the
  attribute that only a stop command sets: \<open>None\<close> means the attribute is absent
  (\<^verbatim>\<open>hasattr(thread, 'keep_running')\<close> is false).
\<close>

record thread =
  thread_call :: loop_call
  daemon :: bool
  started :: bool
  keep_running :: "bool option"

record build =
  manifest_branch :: string
  build_id :: string
  build_target :: string
  build_type :: string
  artifact_type :: string
  artifacts :: "string list"

record listed_build =
  successful :: bool
  listed_build_id :: string

datatype event =
    EvPrint string
  | EvLogException exception
  | EvSleep int
  | EvThreadStart thread
  | EvAuthenticate
  | EvGetBuildList string string string
  | EvPostBuildInfo build
  | EvPostLeaseJob string
  | EvFlash string "string option" "string \<rightharpoonup> string"
  | EvFlashall string "string option" string
  | EvFlashGSI string "string option" string "string option"
  | EvRepackageArtifacts string "string option" "string \<rightharpoonup> string" string
  | EvFlashUsingCustomBinary string "string option" "string \<rightharpoonup> string" string "string option" int
  | EvWaitForDevice string
  | EvShell string
  | EvProcessStart nat
  | EvProcessJoin nat

text \<open>
  The attributes of \<^verbatim>\<open>Console\<close> that the commands share. \<open>tools_info\<close> is optional
  because \<^verbatim>\<open>do_flash\<close> tests it against \<^verbatim>\<open>None\<close>.
\<close>

record console =
  device_image_info :: "string \<rightharpoonup> string"
  test_suite_info :: "string \<rightharpoonup> string"
  tools_info :: "(string \<rightharpoonup> string) option"
  build_thread :: "(int, thread) fmap"
  schedule_thread :: "(int, thread) fmap"
  update_thread :: "thread option"
  fetch_info :: "string \<rightharpoonup> string option"
  serials :: "string list"

text \<open>\<^verbatim>\<open>Console.__init__\<close>: every dictionary starts empty.\<close>

definition init_console :: console where
  "init_console =
     \<lparr> device_image_info = Map.empty, test_suite_info = Map.empty,
       tools_info = Some Map.empty, build_thread = fmempty, schedule_thread = fmempty,
       update_thread = None, fetch_info = Map.empty, serials = [] \<rparr>"

type_synonym 'a result = "(exception + 'a) \<times> event list \<times> console"

section \<open>The collaborators a command talks to\<close>

text \<open>
  What the build provider, the endpoint and the device tools answer during one call.
  The console only sees these answers; each is an exception or a value.
\<close>

record env =
  pab_Authenticate :: "exception option"
  pab_GetBuildList :: "string \<Rightarrow> string \<Rightarrow> string \<Rightarrow> exception + listed_build list"
  post_build_info :: "build \<Rightarrow> exception + int"
  vti_device_update :: "pyval \<Rightarrow> (exception + unit) \<times> event list"
  tfc_device_update :: "pyval \<Rightarrow> (exception + unit) \<times> event list"
  config_update :: "string \<Rightarrow> string \<Rightarrow> string \<Rightarrow> string \<Rightarrow> string \<Rightarrow> (exception + unit) \<times> event list"

definition status_ok :: int where
  "status_ok = 200"

section \<open>Build update: \<^verbatim>\<open>UploadBuildInfo\<close>, \<^verbatim>\<open>UpdateBuild\<close>\<close>

text \<open>
  \<^verbatim>\<open>VtiEndpointClient.UploadBuildInfo\<close>: one POST per build; a status other than ok is
  printed and remembered, an exception of the POST leaves the method at once.
  The accumulator is the source's \<^verbatim>\<open>fail\<close> flag. Printed lines that end in the
  rendering of a response object are shortened to their fixed part, here and below.
\<close>

fun UploadBuildInfo_loop :: "env \<Rightarrow> build list \<Rightarrow> bool \<Rightarrow> (exception + bool) \<times> event list" where
  "UploadBuildInfo_loop e [] fail = (Inr (\<not> fail), [])"
| "UploadBuildInfo_loop e (b # bs) fail =
     (case post_build_info e b of
        Inl x \<Rightarrow> (Inl x, [EvPostBuildInfo b])
      | Inr status \<Rightarrow>
          (if status \<noteq> status_ok
           then (case UploadBuildInfo_loop e bs True of
                   (r, evs) \<Rightarrow> (r, EvPostBuildInfo b # EvPrint ''UploadDeviceInfo error'' # evs))
           else (case UploadBuildInfo_loop e bs fail of
                   (r, evs) \<Rightarrow> (r, EvPostBuildInfo b # evs))))"

definition UploadBuildInfo :: "env \<Rightarrow> build list \<Rightarrow> (exception + bool) \<times> event list" where
  "UploadBuildInfo e builds = UploadBuildInfo_loop e builds False"

text \<open>
  The body of the inner loop of \<^verbatim>\<open>UpdateBuild\<close> for one listed build. The tuple
  assignment from \<^verbatim>\<open>target.split("-")\<close> raises ValueError unless there are exactly
  two parts.
\<close>

definition make_build :: "string \<Rightarrow> string \<Rightarrow> string \<Rightarrow> listed_build \<Rightarrow> exception + build" where
  "make_build branch target atype lb =
     (if CHR ''-'' \<in> set target
      then (case split_on CHR ''-'' target of
              [t, ty] \<Rightarrow> Inr \<lparr> manifest_branch = branch, build_id = listed_build_id lb,
                               build_target = t, build_type = ty, artifact_type = atype,
                               artifacts = [] \<rparr>
            | _ \<Rightarrow> Inl (Exc ValueError ''too many values to unpack''))
      else Inr \<lparr> manifest_branch = branch, build_id = listed_build_id lb,
                 build_target = target, build_type = [], artifact_type = atype,
                 artifacts = [] \<rparr>)"

fun collect_builds :: "string \<Rightarrow> string \<Rightarrow> string \<Rightarrow> listed_build list \<Rightarrow> build list \<Rightarrow> exception + build list" where
  "collect_builds branch target atype [] builds = Inr builds"
| "collect_builds branch target atype (lb # lbs) builds =
     (if successful lb
      then (case make_build branch target atype lb of
              Inl x \<Rightarrow> Inl x
            | Inr b \<Rightarrow> collect_builds branch target atype lbs (builds @ [b]))
      else collect_builds branch target atype lbs builds)"

fun UpdateBuild_targets :: "env \<Rightarrow> string \<Rightarrow> string \<Rightarrow> string \<Rightarrow> string list \<Rightarrow> build list \<Rightarrow> (exception + build list) \<times> event list" where
  "UpdateBuild_targets e account branch atype [] builds = (Inr builds, [])"
| "UpdateBuild_targets e account branch atype (t # ts) builds =
     (case pab_GetBuildList e account branch t of
        Inl x \<Rightarrow> (Inl x, [EvGetBuildList account branch t])
      | Inr lbs \<Rightarrow>
          (case collect_builds branch t atype lbs builds of
             Inl x \<Rightarrow> (Inl x, [EvGetBuildList account branch t])
           | Inr builds' \<Rightarrow>
               (case UpdateBuild_targets e account branch atype ts builds' of
                  (r, evs) \<Rightarrow> (r, EvGetBuildList account branch t # evs))))"

definition UpdateBuild :: "env \<Rightarrow> string \<Rightarrow> string \<Rightarrow> string \<Rightarrow> string \<Rightarrow> (exception + unit) \<times> event list" where
  "UpdateBuild e account branch targets atype =
     (case pab_Authenticate e of
        Some x \<Rightarrow> (Inl x, [EvAuthenticate])
      | None \<Rightarrow>
          (case UpdateBuild_targets e account branch atype (split_on CHR '','' targets) [] of
             (Inl x, evs) \<Rightarrow> (Inl x, EvAuthenticate # evs)
           | (Inr builds, evs) \<Rightarrow>
               (case UploadBuildInfo e builds of
                  (Inl x, evs') \<Rightarrow> (Inl x, EvAuthenticate # evs @ evs')
                | (Inr _, evs') \<Rightarrow> (Inr (), EvAuthenticate # evs @ evs'))))"

section \<open>Device and config update\<close>

text \<open>
  \<^verbatim>\<open>UpdateDevice(self, server_type, host)\<close>. What the two scheduler branches do
  (listing devices with adb and fastboot, uploading them) is the collaborators' answer.
\<close>

definition UpdateDevice :: "env \<Rightarrow> pyval \<Rightarrow> pyval \<Rightarrow> (exception + unit) \<times> event list" where
  "UpdateDevice e server_type h =
     (if server_type = PStr ''vti'' then vti_device_update e h
      else if server_type = PStr ''tfc'' then tfc_device_update e h
      else (Inr (), [EvPrint ''Error: unknown server_type for UpdateDevice'']))"

text \<open>
  A call \<^verbatim>\<open>self.UpdateDevice(*args)\<close>: the method takes exactly two arguments besides
  \<^verbatim>\<open>self\<close>; any other number raises TypeError before the body runs.
\<close>

definition UpdateDevice_apply :: "env \<Rightarrow> pyval list \<Rightarrow> (exception + unit) \<times> event list" where
  "UpdateDevice_apply e args =
     (case args of
        [server_type, h] \<Rightarrow> UpdateDevice e server_type h
      | _ \<Rightarrow> (Inl (Exc TypeError (''UpdateDevice() takes exactly 3 arguments (''
                      @ str_nat (length args + 1) @ '' given)'')), []))"

text \<open>
  \<^verbatim>\<open>UpdateConfig\<close>: fetching the config archive, walking its files and uploading the
  schedule and lab messages is the collaborators' answer for one call.
\<close>

definition UpdateConfig :: "env \<Rightarrow> string \<Rightarrow> string \<Rightarrow> string \<Rightarrow> string \<Rightarrow> string \<Rightarrow> (exception + unit) \<times> event list" where
  "UpdateConfig e account branch targets config_type method =
     config_update e account branch targets config_type method"

section \<open>The polling loops\<close>











section \<open>The build and config session registries: \<^verbatim>\<open>do_build\<close>, \<^verbatim>\<open>do_config\<close>\<close>

text \<open>The namespace the build parser returns (\<^verbatim>\<open>--id\<close> stays a string until used).\<close>

record build_args =
  b_update :: string
  b_id :: "string option"
  b_interval :: int
  b_artifact_type :: string
  b_branch :: string
  b_target :: string
  b_account_id :: string

record config_args =
  c_update :: string
  c_id :: "string option"
  c_interval :: int
  c_config_type :: string
  c_branch :: string
  c_target :: string
  c_account_id :: string
  c_method :: string

text \<open>
  \<^verbatim>\<open>args.id in self.build_thread and not hasattr(self.build_thread[args.id], 'keep_running')\<close>:
  the entry exists and no stop command has marked it.
\<close>

definition session_running :: "(int, thread) fmap \<Rightarrow> int \<Rightarrow> bool" where
  "session_running reg i =
     (case fmlookup reg i of None \<Rightarrow> False | Some t \<Rightarrow> keep_running t = None)"

text \<open>A thread after \<^verbatim>\<open>Thread(target=..., args=...)\<close>, \<^verbatim>\<open>daemon = True\<close>, \<^verbatim>\<open>start()\<close>.\<close>

definition new_thread :: "loop_call \<Rightarrow> thread" where
  "new_thread c = \<lparr> thread_call = c, daemon = True, started = True, keep_running = None \<rparr>"

text \<open>The id a start command uses: 1 or the largest key plus one, or the parsed \<^verbatim>\<open>--id\<close>.\<close>

definition session_id :: "(int, thread) fmap \<Rightarrow> string option \<Rightarrow> exception + int" where
  "session_id reg a =
     (case a of
        None \<Rightarrow> Inr (if reg = fmempty then 1 else Max (fmdom' reg) + 1)
      | Some s \<Rightarrow> py_int s)"

definition build_already_running :: "int \<Rightarrow> string" where
  "build_already_running i =
     ''build update (session ID: '' @ str_int i @ '') already running. run build --update stop first.''"

definition config_already_running :: "int \<Rightarrow> string" where
  "config_already_running i =
     ''config update already running. run config --update=stop --id='' @ str_int i @ '' first.''"

text \<open>
  \<^verbatim>\<open>print("  ID %d", id)\<close> under Python 2 prints the tuple. The list commands print the
  ids in increasing order here; Python leaves the order of a dictionary's keys open.
\<close>

definition id_line :: "int \<Rightarrow> string" where
  "id_line i = ''('' @ [CHR 0x27] @ ''  ID %d'' @ [CHR 0x27] @ '', '' @ str_int i @ '')''"

definition do_build :: "env \<Rightarrow> build_args \<Rightarrow> console \<Rightarrow> unit result" where
  "do_build e args st =
     (if b_update args = ''single'' then
        (case UpdateDevice_apply e [PStr (b_account_id args), PStr (b_branch args),
                                    PStr (b_target args), PStr (b_artifact_type args)] of
           (r, evs) \<Rightarrow> (r, evs, st))
      else if b_update args = ''list'' then
        (Inr (), EvPrint ''Running build update sessions:''
                 # map (\<lambda>i. EvPrint (id_line i)) (sorted_list_of_set (fmdom' (build_thread st))), st)
      else if b_update args = ''start'' then
        (if b_interval args \<le> 0
         then (Inl (Exc ConsoleArgumentError ''update interval must be positive''), [], st)
         else (case session_id (build_thread st) (b_id args) of
                 Inl x \<Rightarrow> (Inl x, [], st)
               | Inr i \<Rightarrow>
                   (if session_running (build_thread st) i
                    then (Inr (), [EvPrint (build_already_running i)], st)
                    else (let t = new_thread (UpdateBuildLoop_call (b_account_id args) (b_branch args)
                                     (b_target args) (b_artifact_type args) (b_interval args))
                          in (Inr (), [EvThreadStart t],
                              st\<lparr>build_thread := fmupd i t (build_thread st)\<rparr>)))))
      else if b_update args = ''stop'' then
        (case b_id args of
           None \<Rightarrow> (Inr (), [EvPrint ''--id must be set for stop''], st)
         | Some s \<Rightarrow>
             (case py_int s of
                Inl x \<Rightarrow> (Inl x, [], st)
              | Inr i \<Rightarrow>
                  (case fmlookup (build_thread st) i of
                     None \<Rightarrow> (Inl (Exc KeyError (str_int i)), [], st)
                   | Some t \<Rightarrow>
                       (Inr (), [],
                        st\<lparr>build_thread := fmupd i (t\<lparr>keep_running := Some False\<rparr>) (build_thread st)\<rparr>))))
      else (Inr (), [], st))"

definition do_config :: "env \<Rightarrow> config_args \<Rightarrow> console \<Rightarrow> unit result" where
  "do_config e args st =
     (if c_update args = ''single'' then
        (case UpdateConfig e (c_account_id args) (c_branch args) (c_target args)
                (c_config_type args) (c_method args) of
           (r, evs) \<Rightarrow> (r, evs, st))
      else if c_update args = ''list'' then
        (Inr (), EvPrint ''Running config update sessions:''
                 # map (\<lambda>i. EvPrint (id_line i)) (sorted_list_of_set (fmdom' (schedule_thread st))), st)
      else if c_update args = ''start'' then
        (if c_interval args \<le> 0
         then (Inl (Exc ConsoleArgumentError ''update interval must be positive''), [], st)
         else (case session_id (schedule_thread st) (c_id args) of
                 Inl x \<Rightarrow> (Inl x, [], st)
               | Inr i \<Rightarrow>
                   (if session_running (schedule_thread st) i
                    then (Inr (), [EvPrint (config_already_running i)], st)
                    else (let t = new_thread (UpdateConfigLoop_call (c_account_id args) (c_branch args)
                                     (c_target args) (c_config_type args) (c_method args)
                                     (c_interval args))
                          in (Inr (), [EvThreadStart t],
                              st\<lparr>schedule_thread := fmupd i t (schedule_thread st)\<rparr>)))))
      else if c_update args = ''stop'' then
        (case c_id args of
           None \<Rightarrow> (Inr (), [EvPrint ''--id must be set for stop''], st)
         | Some s \<Rightarrow>
             (case py_int s of
                Inl x \<Rightarrow> (Inl x, [], st)
              | Inr i \<Rightarrow>
                  (case fmlookup (schedule_thread st) i of
                     None \<Rightarrow> (Inl (Exc KeyError (str_int i)), [], st)
                   | Some t \<Rightarrow>
                       (Inr (), [],
                        st\<lparr>schedule_thread := fmupd i (t\<lparr>keep_running := Some False\<rparr>) (schedule_thread st)\<rparr>))))
      else (Inr (), [], st))"

text \<open>
  A sequence of build and config commands, one after the other; an exception of one
  command is printed by the dispatcher and the next command runs on the state as left.
\<close>

datatype command = Build build_args | Config config_args

fun run_command :: "env \<Rightarrow> command \<Rightarrow> console \<Rightarrow> console" where
  "run_command e (Build a) st = snd (snd (do_build e a st))"
| "run_command e (Config a) st = snd (snd (do_config e a st))"

fun run_commands :: "env \<Rightarrow> command list \<Rightarrow> console \<Rightarrow> console" where
  "run_commands e [] st = st"
| "run_commands e (c # cs) st = run_commands e cs (run_command e c st)"

text \<open>Start and stop commands that name the session \<open>i\<close> by an explicit \<^verbatim>\<open>--id\<close>.\<close>

definition build_names :: "build_args \<Rightarrow> string \<Rightarrow> int \<Rightarrow> bool" where
  "build_names a mode i = (b_update a = mode \<and> (case b_id a of None \<Rightarrow> False | Some s \<Rightarrow> py_int s = Inr i))"

definition config_names :: "config_args \<Rightarrow> string \<Rightarrow> int \<Rightarrow> bool" where
  "config_names a mode i = (c_update a = mode \<and> (case c_id a of None \<Rightarrow> False | Some s \<Rightarrow> py_int s = Inr i))"

fun starts_build :: "int \<Rightarrow> command \<Rightarrow> bool" where
  "starts_build i (Build a) = build_names a ''start'' i"
| "starts_build i (Config a) = False"

fun starts_config :: "int \<Rightarrow> command \<Rightarrow> bool" where
  "starts_config i (Config a) = config_names a ''start'' i"
| "starts_config i (Build a) = False"

text \<open>The entry exists and a stop command has marked it.\<close>

definition session_stopped :: "(int, thread) fmap \<Rightarrow> int \<Rightarrow> bool" where
  "session_stopped reg i =
     (case fmlookup reg i of None \<Rightarrow> False | Some t \<Rightarrow> keep_running t \<noteq> None)"

text \<open>The threads the two start commands create.\<close>

definition build_session :: "build_args \<Rightarrow> thread" where
  "build_session a =
     new_thread (UpdateBuildLoop_call (b_account_id a) (b_branch a) (b_target a)
                   (b_artifact_type a) (b_interval a))"

definition config_session :: "config_args \<Rightarrow> thread" where
  "config_session a =
     new_thread (UpdateConfigLoop_call (c_account_id a) (c_branch a) (c_target a)
                   (c_config_type a) (c_method a) (c_interval a))"

section \<open>Fetching artifacts: \<^verbatim>\<open>do_fetch\<close>\<close>

record fetch_args =
  f_type :: string
  f_method :: string
  f_path :: "string option"
  f_branch :: "string option"
  f_target :: "string option"
  f_account_id :: string
  f_build_id :: string
  f_artifact_name :: "string option"
  f_userinfo_file :: "string option"
  f_tool :: "string option"

text \<open>
  What the four build providers answer to one fetch: an exception, or the dictionaries of
  device images and test suites, with the fetch environment (\<^verbatim>\<open>pab\<close>, \<^verbatim>\<open>ab\<close>) or the
  tools (\<^verbatim>\<open>gcs\<close>). The arguments are those of the call in \<^verbatim>\<open>do_fetch\<close>.
\<close>

record providers =
  pab_Authenticate_userinfo :: "string option \<Rightarrow> exception option"
  pab_GetArtifact :: "string \<Rightarrow> string option \<Rightarrow> string option \<Rightarrow> string option \<Rightarrow> string \<Rightarrow> string
                        \<Rightarrow> exception + (string \<rightharpoonup> string) \<times> (string \<rightharpoonup> string) \<times> (string \<rightharpoonup> string)"
  local_fs_Fetch :: "string option \<Rightarrow> exception + (string \<rightharpoonup> string) \<times> (string \<rightharpoonup> string)"
  gcs_Fetch :: "string option \<Rightarrow> string option
                        \<Rightarrow> exception + (string \<rightharpoonup> string) \<times> (string \<rightharpoonup> string) \<times> (string \<rightharpoonup> string)"
  ab_Fetch :: "string option \<Rightarrow> string option \<Rightarrow> string option \<Rightarrow> string
                        \<Rightarrow> exception + (string \<rightharpoonup> string) \<times> (string \<rightharpoonup> string) \<times> (string \<rightharpoonup> string)"

text \<open>
  The statements of \<^verbatim>\<open>do_fetch\<close> after the provider has answered: branch and target
  are recorded and both dictionaries are updated with \<^verbatim>\<open>dict.update\<close>. The two
  \<^verbatim>\<open>logging.info\<close> calls that follow only write the dictionaries to the log.
\<close>

definition fetch_update :: "fetch_args \<Rightarrow> (string \<rightharpoonup> string) \<Rightarrow> (string \<rightharpoonup> string) \<Rightarrow> console \<Rightarrow> console" where
  "fetch_update args device_images test_suites st =
     st\<lparr> fetch_info := (fetch_info st)(''branch'' \<mapsto> f_branch args, ''target'' \<mapsto> f_target args),
         device_image_info := device_image_info st ++ device_images,
         test_suite_info := test_suite_info st ++ test_suites \<rparr>"

definition do_fetch :: "providers \<Rightarrow> fetch_args \<Rightarrow> console \<Rightarrow> unit result" where
  "do_fetch p args st =
     (if f_type args = ''pab'' then
        (case pab_Authenticate_userinfo p (f_userinfo_file args) of
           Some x \<Rightarrow> (Inl x, [], st)
         | None \<Rightarrow>
             (case pab_GetArtifact p (f_account_id args) (f_branch args) (f_target args)
                     (f_artifact_name args) (f_build_id args) (f_method args) of
                Inl x \<Rightarrow> (Inl x, [], st)
              | Inr (device_images, test_suites, fetch_environment) \<Rightarrow>
                  (case fetch_environment ''build_id'' of
                     None \<Rightarrow> (Inl (Exc KeyError (CHR 0x27 # ''build_id'' @ [CHR 0x27])), [], st)
                   | Some b \<Rightarrow>
                       (Inr (), [],
                        fetch_update args device_images test_suites
                          (st\<lparr>fetch_info := (fetch_info st)(''build_id'' \<mapsto> Some b)\<rparr>)))))
      else if f_type args = ''local_fs'' then
        (case local_fs_Fetch p (f_path args) of
           Inl x \<Rightarrow> (Inl x, [], st)
         | Inr (device_images, test_suites) \<Rightarrow>
             (Inr (), [],
              fetch_update args device_images test_suites
                (st\<lparr>fetch_info := (fetch_info st)(''build_id'' \<mapsto> None)\<rparr>)))
      else if f_type args = ''gcs'' then
        (case gcs_Fetch p (f_path args) (f_tool args) of
           Inl x \<Rightarrow> (Inl x, [], st)
         | Inr (device_images, test_suites, tools) \<Rightarrow>
             (case tools_info st of
                None \<Rightarrow> (Inl (Exc AttributeError ''NoneType object has no attribute update''), [], st)
              | Some ti \<Rightarrow>
                  (Inr (), [],
                   fetch_update args device_images test_suites
                     (st\<lparr>tools_info := Some (ti ++ tools),
                         fetch_info := (fetch_info st)(''build_id'' \<mapsto> None)\<rparr>))))
      else if f_type args = ''ab'' then
        (case ab_Fetch p (f_branch args) (f_target args) (f_artifact_name args) (f_build_id args) of
           Inl x \<Rightarrow> (Inl x, [], st)
         | Inr (device_images, test_suites, fetch_environment) \<Rightarrow>
             (case fetch_environment ''build_id'' of
                None \<Rightarrow> (Inl (Exc KeyError (CHR 0x27 # ''build_id'' @ [CHR 0x27])), [], st)
              | Some b \<Rightarrow>
                  (Inr (), [],
                   fetch_update args device_images test_suites
                     (st\<lparr>fetch_info := (fetch_info st)(''build_id'' \<mapsto> Some b)\<rparr>))))
      else (Inr (), [EvPrint (''ERROR: unknown fetch type '' @ f_type args)], st))"

text \<open>The two artifact dictionaries that the provider chosen by \<^verbatim>\<open>--type\<close> returned.\<close>

definition fetched :: "providers \<Rightarrow> fetch_args \<Rightarrow> exception + (string \<rightharpoonup> string) \<times> (string \<rightharpoonup> string)" where
  "fetched p args =
     (if f_type args = ''pab'' then
        (case pab_GetArtifact p (f_account_id args) (f_branch args) (f_target args)
                (f_artifact_name args) (f_build_id args) (f_method args) of
           Inl x \<Rightarrow> Inl x | Inr (di, ts, fe) \<Rightarrow> Inr (di, ts))
      else if f_type args = ''local_fs'' then local_fs_Fetch p (f_path args)
      else if f_type args = ''gcs'' then
        (case gcs_Fetch p (f_path args) (f_tool args) of
           Inl x \<Rightarrow> Inl x | Inr (di, ts, tools) \<Rightarrow> Inr (di, ts))
      else (case ab_Fetch p (f_branch args) (f_target args) (f_artifact_name args) (f_build_id args) of
           Inl x \<Rightarrow> Inl x | Inr (di, ts, fe) \<Rightarrow> Inr (di, ts)))"

section \<open>Flashing: \<^verbatim>\<open>do_flash\<close>\<close>

text \<open>
  \<^verbatim>\<open>_DEFAULT_FLASH_IMAGES\<close>. Its first entry is \<^verbatim>\<open>build_provider.FULL_ZIPFILE\<close>, a
  constant of a module that is not part of the sources at hand; it is the parameter
  \<open>full_zipfile\<close>.
\<close>

definition DEFAULT_FLASH_IMAGES :: "string \<Rightarrow> string list" where
  "DEFAULT_FLASH_IMAGES full_zipfile =
     [full_zipfile, ''boot.img'', ''cache.img'', ''system.img'', ''userdata.img'',
      ''vbmeta.img'', ''vendor.img'']"

text \<open>\<^verbatim>\<open>sep in s\<close> for strings: \<open>sep\<close> starts at some position of \<open>s\<close>.\<close>

fun occurs :: "string \<Rightarrow> string \<Rightarrow> bool" where
  "occurs sep [] = (sep = [])"
| "occurs sep (c # cs) = (take (length sep) (c # cs) = sep \<or> occurs sep cs)"

text \<open>
  \<^verbatim>\<open>s.rsplit(sep, 1)[0]\<close> for a non-empty \<open>sep\<close>: the part of \<open>s\<close> before the last
  occurrence of \<open>sep\<close>, and all of \<open>s\<close> when there is none.
\<close>

fun rsplit1_head :: "string \<Rightarrow> string \<Rightarrow> string" where
  "rsplit1_head sep [] = []"
| "rsplit1_head sep (c # cs) =
     (if occurs sep cs then c # rsplit1_head sep cs
      else if take (length sep) (c # cs) = sep then []
      else c # rsplit1_head sep cs)"

text \<open>\<^verbatim>\<open>dict(pairs)\<close>: a later pair replaces an earlier one with the same key.\<close>

definition dict_of :: "('k \<times> 'v) list \<Rightarrow> ('k \<rightharpoonup> 'v)" where
  "dict_of pairs = foldl (\<lambda>m kv. m(fst kv \<mapsto> snd kv)) Map.empty pairs"

record flash_args =
  fl_current :: "string list list option"
  fl_serial :: string
  fl_build_dir :: "string option"
  fl_gsi :: "string option"
  fl_vbmeta :: "string option"
  fl_flasher_type :: "string option"
  fl_flasher_path :: "string option"
  fl_reboot_mode :: string
  fl_arg_flasher :: "string option"
  fl_repackage :: "string option"

text \<open>
  The generator of the \<^verbatim>\<open>--current\<close> branch: each element of \<^verbatim>\<open>args.current\<close> is the
  list \<^verbatim>\<open>x.split("=")\<close> and is unpacked into partition and image (ValueError unless it
  has two parts); the image is looked up in \<^verbatim>\<open>device_image_info\<close> (KeyError).
\<close>

fun current_pairs :: "(string \<rightharpoonup> string) \<Rightarrow> string list list \<Rightarrow> exception + (string \<times> string) list" where
  "current_pairs info [] = Inr []"
| "current_pairs info (x # xs) =
     (case x of
        [part, img] \<Rightarrow>
          (case info img of
             None \<Rightarrow> Inl (Exc KeyError (CHR 0x27 # img @ [CHR 0x27]))
           | Some path \<Rightarrow>
               (case current_pairs info xs of
                  Inl e \<Rightarrow> Inl e
                | Inr ps \<Rightarrow> Inr ((part, path) # ps)))
      | _ \<Rightarrow> Inl (Exc ValueError (if length x < 2 then ''need more than 1 value to unpack''
                                    else ''too many values to unpack'')))"

text \<open>
  The generator of the default branch: the images of \<^verbatim>\<open>_DEFAULT_FLASH_IMAGES\<close> that are
  keys of \<^verbatim>\<open>device_image_info\<close>, each with \<^verbatim>\<open>image.rsplit(".img", 1)[0]\<close> as partition.
\<close>

fun default_pairs :: "(string \<rightharpoonup> string) \<Rightarrow> string list \<Rightarrow> (string \<times> string) list" where
  "default_pairs info [] = []"
| "default_pairs info (img # images) =
     (case info img of
        None \<Rightarrow> default_pairs info images
      | Some path \<Rightarrow> (rsplit1_head ''.img'' img, path) # default_pairs info images)"

text \<open>The dictionary \<^verbatim>\<open>partition_image\<close> of \<^verbatim>\<open>do_flash\<close>; an empty list is false.\<close>

definition flash_partition_image :: "string \<Rightarrow> flash_args \<Rightarrow> console \<Rightarrow> exception + (string \<rightharpoonup> string)" where
  "flash_partition_image full_zipfile args st =
     (case fl_current args of
        Some (x # xs) \<Rightarrow>
          (case current_pairs (device_image_info st) (x # xs) of
             Inl e \<Rightarrow> Inl e
           | Inr ps \<Rightarrow> Inr (dict_of ps))
      | _ \<Rightarrow> Inr (dict_of (default_pairs (device_image_info st) (DEFAULT_FLASH_IMAGES full_zipfile))))"

text \<open>
  The first statement of \<^verbatim>\<open>do_flash\<close>: when \<^verbatim>\<open>tools_info\<close> is not \<^verbatim>\<open>None\<close> the
  \<^verbatim>\<open>--flasher_path\<close> argument is a key into it, and a missing key (the keys are the names
  of fetched tools, never \<^verbatim>\<open>None\<close>) raises KeyError.
\<close>

definition flash_flasher_path :: "flash_args \<Rightarrow> console \<Rightarrow> exception + string option" where
  "flash_flasher_path args st =
     (case tools_info st of
        Some ti \<Rightarrow>
          (case fl_flasher_path args of
             None \<Rightarrow> Inl (Exc KeyError ''None'')
           | Some k \<Rightarrow>
               (case ti k of
                  None \<Rightarrow> Inl (Exc KeyError (CHR 0x27 # k @ [CHR 0x27]))
                | Some path \<Rightarrow> Inr (Some path)))
      | None \<Rightarrow> Inr (fl_flasher_path args))"

text \<open>The serials of the \<^verbatim>\<open>BuildFlasher\<close> objects, in the order they are created.\<close>

definition flash_serials :: "flash_args \<Rightarrow> console \<Rightarrow> string list" where
  "flash_serials args st =
     (if fl_serial args \<noteq> [] then [fl_serial args]
      else if serials st \<noteq> [] then serials st
      else [[]])"

text \<open>
  The body of the first loop over the flashers, for one flasher. Calls of the flashing
  tool are recorded as events with their arguments; what the tool does with them is not
  part of the console. \<^verbatim>\<open>self._flash_parser.error\<close> raises ConsoleArgumentError.
\<close>

definition flash_one :: "flash_args \<Rightarrow> console \<Rightarrow> string option \<Rightarrow> (string \<rightharpoonup> string) \<Rightarrow> string \<Rightarrow> (exception + unit) \<times> event list" where
  "flash_one args st flasher_path partition_image serial =
     (if fl_current args \<noteq> None then (Inr (), [EvFlash serial flasher_path partition_image])
      else if fl_flasher_type args = None \<or> fl_flasher_type args = Some ''fastboot'' then
        (if fl_gsi args = None \<and> fl_build_dir args = None
         then (Inl (Exc ConsoleArgumentError ''Nothing requested: specify --gsi or --build_dir''), [])
         else (Inr (),
               (case fl_build_dir args of None \<Rightarrow> [] | Some b \<Rightarrow> [EvFlashall serial flasher_path b])
               @ (case fl_gsi args of None \<Rightarrow> []
                  | Some g \<Rightarrow> [EvFlashGSI serial flasher_path g (fl_vbmeta args)])))
      else if fl_flasher_type args = Some ''custom'' then
        (if flasher_path \<noteq> None
         then (Inr (),
               (case fl_repackage args of None \<Rightarrow> []
                | Some r \<Rightarrow> [EvRepackageArtifacts serial flasher_path (device_image_info st) r])
               @ [EvFlashUsingCustomBinary serial flasher_path (device_image_info st)
                    (fl_reboot_mode args) (fl_arg_flasher args) 300])
         else (Inl (Exc ConsoleArgumentError ''Please specify the path to custom flash tool.''), []))
      else (Inl (Exc ConsoleArgumentError
                  (''Wrong flasher type requested: --flasher_type='' @ the (fl_flasher_type args))), []))"

fun flash_all :: "flash_args \<Rightarrow> console \<Rightarrow> string option \<Rightarrow> (string \<rightharpoonup> string) \<Rightarrow> string list \<Rightarrow> (exception + unit) \<times> event list" where
  "flash_all args st flasher_path partition_image [] = (Inr (), [])"
| "flash_all args st flasher_path partition_image (serial # rest) =
     (case flash_one args st flasher_path partition_image serial of
        (Inl e, evs) \<Rightarrow> (Inl e, evs)
      | (Inr u, evs) \<Rightarrow>
          (case flash_all args st flasher_path partition_image rest of
             (r, evs') \<Rightarrow> (r, evs @ evs')))"

definition do_flash :: "string \<Rightarrow> flash_args \<Rightarrow> console \<Rightarrow> unit result" where
  "do_flash full_zipfile args st =
     (case flash_flasher_path args st of
        Inl e \<Rightarrow> (Inl e, [], st)
      | Inr flasher_path \<Rightarrow>
          (case flash_partition_image full_zipfile args st of
             Inl e \<Rightarrow> (Inl e, [], st)
           | Inr partition_image \<Rightarrow>
               (case flash_all args st flasher_path partition_image (flash_serials args st) of
                  (Inl e, evs) \<Rightarrow> (Inl e, evs, st)
                | (Inr u, evs) \<Rightarrow>
                    (Inr (), evs @ map EvWaitForDevice (flash_serials args st), st))))"

section \<open>Changing the security patch level: \<^verbatim>\<open>do_gsispl\<close>\<close>

text \<open>
  \<^verbatim>\<open>datetime.datetime.strptime(s, "%Y-%m-%d")\<close>. The format is matched as the regular
  expression that \<^verbatim>\<open>strptime\<close> builds for it: four digits, a dash, a month written
  \<^verbatim>\<open>1[0-2]|0[1-9]|[1-9]\<close>, a dash, a day written \<^verbatim>\<open>3[01]|[12]\d|0[1-9]|[1-9]| [1-9]\<close>;
  nothing may follow, and year, month and day must form a date (years start at 1).
  Every failure is a ValueError.
\<close>

fun strptime_month :: "string \<Rightarrow> (nat \<times> string) option" where
  "strptime_month (a # b # rest) =
     (if a = CHR ''1'' \<and> b \<in> set ''012'' then Some (10 + digit_val b, rest)
      else if a = CHR ''0'' \<and> b \<in> set ''123456789'' then Some (digit_val b, rest)
      else if a \<in> set ''123456789'' then Some (digit_val a, b # rest)
      else None)"
| "strptime_month [a] = (if a \<in> set ''123456789'' then Some (digit_val a, []) else None)"
| "strptime_month [] = None"

fun strptime_day :: "string \<Rightarrow> (nat \<times> string) option" where
  "strptime_day (a # b # rest) =
     (if a = CHR ''3'' \<and> b \<in> set ''01'' then Some (30 + digit_val b, rest)
      else if a \<in> set ''12'' \<and> is_digit b then Some (10 * digit_val a + digit_val b, rest)
      else if a = CHR ''0'' \<and> b \<in> set ''123456789'' then Some (digit_val b, rest)
      else if a \<in> set ''123456789'' then Some (digit_val a, b # rest)
      else if a = CHR '' '' \<and> b \<in> set ''123456789'' then Some (digit_val b, rest)
      else None)"
| "strptime_day [a] = (if a \<in> set ''123456789'' then Some (digit_val a, []) else None)"
| "strptime_day [] = None"

definition is_leap :: "nat \<Rightarrow> bool" where
  "is_leap y = (y mod 4 = 0 \<and> (y mod 100 \<noteq> 0 \<or> y mod 400 = 0))"

definition days_in_month :: "nat \<Rightarrow> nat \<Rightarrow> nat" where
  "days_in_month y m =
     (if m = 2 then (if is_leap y then 29 else 28)
      else if m \<in> {4, 6, 9, 11} then 30 else 31)"

definition strptime_mismatch :: "string \<Rightarrow> exception" where
  "strptime_mismatch s = Exc ValueError (''time data '' @ s @ '' does not match format %Y-%m-%d'')"

definition strptime_Ymd :: "string \<Rightarrow> exception + nat \<times> nat \<times> nat" where
  "strptime_Ymd s =
     (case s of
        y1 # y2 # y3 # y4 # dash1 # r1 \<Rightarrow>
          (if list_all is_digit [y1, y2, y3, y4] \<and> dash1 = CHR ''-''
           then (case strptime_month r1 of
                   Some (m, dash2 # r2) \<Rightarrow>
                     (if dash2 = CHR ''-''
                      then (case strptime_day r2 of
                              Some (d, r3) \<Rightarrow>
                                (if r3 \<noteq> [] then Inl (Exc ValueError (''unconverted data remains: '' @ r3))
                                 else if digits_val [y1, y2, y3, y4] = 0
                                 then Inl (Exc ValueError ''year is out of range'')
                                 else if days_in_month (digits_val [y1, y2, y3, y4]) m < d
                                 then Inl (Exc ValueError ''day is out of range for month'')
                                 else Inr (digits_val [y1, y2, y3, y4], m, d))
                            | None \<Rightarrow> Inl (strptime_mismatch s))
                      else Inl (strptime_mismatch s))
                 | _ \<Rightarrow> Inl (strptime_mismatch s))
           else Inl (strptime_mismatch s))
      | _ \<Rightarrow> Inl (strptime_mismatch s))"

text \<open>\<^verbatim>\<open>"{:04d}"\<close> and \<^verbatim>\<open>"{:02d}"\<close>: decimal, padded with zeros on the left.\<close>

definition pad_zero :: "nat \<Rightarrow> nat \<Rightarrow> string" where
  "pad_zero w n = replicate (w - length (str_nat n)) CHR ''0'' @ str_nat n"

text \<open>\<^verbatim>\<open>os.path.join(d, f)\<close> for a relative \<open>f\<close>.\<close>

definition path_join :: "string \<Rightarrow> string \<Rightarrow> string" where
  "path_join d f = (if d = [] then f else if last d = CHR ''/'' then d @ f else d @ ''/'' @ f)"

record gsispl_args =
  g_gsi :: "string option"
  g_version :: string

text \<open>
  The file system and the shell as \<^verbatim>\<open>do_gsispl\<close> sees them: \<^verbatim>\<open>os.path.isfile\<close>,
  \<^verbatim>\<open>os.path.dirname(os.path.abspath(p))\<close>, and what
  \<^verbatim>\<open>cmd_utils.ExecuteOneShellCommand\<close> returns for a command line (stdout, stderr, exit
  code).
\<close>

record gsi_env =
  isfile :: "string \<Rightarrow> bool"
  abspath_dirname :: "string \<Rightarrow> string"
  ExecuteOneShellCommand :: "string \<Rightarrow> string \<times> string \<times> int"

text \<open>The first statement: which image to work on, or the message printed before returning.\<close>

definition gsispl_gsi_path :: "gsi_env \<Rightarrow> gsispl_args \<Rightarrow> console \<Rightarrow> string + string" where
  "gsispl_gsi_path ge args st =
     (if g_gsi args \<noteq> None \<and> g_gsi args \<noteq> Some []
      then (if isfile ge (the (g_gsi args)) then Inr (the (g_gsi args))
            else Inl ''Cannot find system image in given path'')
      else (case device_image_info st ''system.img'' of
              Some p \<Rightarrow> Inr p
            | None \<Rightarrow> Inl ''Cannot find system image.''))"

text \<open>The second statement: the normalised version, or the message printed before returning.\<close>

definition gsispl_version :: "gsispl_args \<Rightarrow> string + string" where
  "gsispl_version args =
     (if g_version args \<noteq> []
      then (case strptime_Ymd (g_version args) of
              Inr (y, m, d) \<Rightarrow> Inr (pad_zero 4 y @ ''-'' @ pad_zero 2 m @ ''-'' @ pad_zero 2 d)
            | Inl e \<Rightarrow> Inl ''version ID should be YYYY-mm-dd format.'')
      else Inl ''version ID must be given.'')"

definition do_gsispl :: "gsi_env \<Rightarrow> gsispl_args \<Rightarrow> console \<Rightarrow> unit result" where
  "do_gsispl ge args st =
     (case gsispl_gsi_path ge args st of
        Inl msg \<Rightarrow> (Inr (), [EvPrint msg], st)
      | Inr gsi_path \<Rightarrow>
          (case gsispl_version args of
             Inl msg \<Rightarrow> (Inr (), [EvPrint msg], st)
           | Inr version \<Rightarrow>
               (let output_path = path_join (abspath_dirname ge gsi_path) (''system-'' @ version @ ''.img'');
                    command = ''vts/harnesses/host_controller/gsi/change_spl.sh '' @ gsi_path
                                @ '' '' @ output_path @ '' '' @ version
                in (case ExecuteOneShellCommand ge command of
                      (stdout, stderr, err_code) \<Rightarrow>
                        (if err_code = 0
                         then (if \<not> (g_gsi args \<noteq> None \<and> g_gsi args \<noteq> Some [])
                               then (Inr (), [EvShell command],
                                     st\<lparr>device_image_info := (device_image_info st)(''system.img'' \<mapsto> output_path)\<rparr>)
                               else (Inr (), [EvShell command], st))
                         else (Inr (), [EvShell command, EvPrint (''gsispl error: '' @ stderr)], st))))))"

section \<open>A console session\<close>

text \<open>
  The commands that read or write the shared attributes, each with what its
  collaborators answer during the call. An exception leaves the state as the command
  left it; none of these commands changes the state before it raises.
\<close>

datatype console_command =
    CmdBuild env build_args
  | CmdConfig env config_args
  | CmdFetch providers fetch_args
  | CmdFlash string flash_args
  | CmdGsispl gsi_env gsispl_args

fun run_console_command :: "console_command \<Rightarrow> console \<Rightarrow> console" where
  "run_console_command (CmdBuild e a) st = snd (snd (do_build e a st))"
| "run_console_command (CmdConfig e a) st = snd (snd (do_config e a st))"
| "run_console_command (CmdFetch p a) st = snd (snd (do_fetch p a st))"
| "run_console_command (CmdFlash z a) st = snd (snd (do_flash z a st))"
| "run_console_command (CmdGsispl g a) st = snd (snd (do_gsispl g a st))"

fun run_console :: "console_command list \<Rightarrow> console \<Rightarrow> console" where
  "run_console [] st = st"
| "run_console (c # cs) st = run_console cs (run_console_command c st)"

section \<open>Dispatch: \<^verbatim>\<open>onecmd\<close>\<close>

text \<open>
  \<^verbatim>\<open>cmd.Cmd.onecmd\<close> of the standard library finds the handler of a line and calls it.
  It is the parameter \<open>dispatch\<close>: for a line and a state, what the handler returns
  (\<open>None\<close>, or \<open>Some True\<close> from \<^verbatim>\<open>do_exit\<close>) or raises, the events of the call, and
  the state it leaves.
\<close>

type_synonym dispatch = "string \<Rightarrow> console \<Rightarrow> (bool option) result"

text \<open>
  \<^verbatim>\<open>onecmd\<close> on a string: the line is echoed when it is not empty, and an exception
  that is an instance of \<^verbatim>\<open>Exception\<close> is printed as \<^verbatim>\<open>"%s: %s" % (type(e).__name__, e)\<close>,
  after which \<^verbatim>\<open>None\<close> is returned.
\<close>

definition onecmd_line :: "dispatch \<Rightarrow> string \<Rightarrow> console \<Rightarrow> (bool option) result" where
  "onecmd_line dispatch line st =
     (let shown = (if line \<noteq> [] then [EvPrint (''Command: '' @ line)] else [])
      in (case dispatch line st of
            (Inr r, evs, st') \<Rightarrow> (Inr r, shown @ evs, st')
          | (Inl (Exc c m), evs, st') \<Rightarrow>
              (if is_Exception c
               then (Inr None, shown @ evs @ [EvPrint (class_name c @ '': '' @ m)], st')
               else (Inl (Exc c m), shown @ evs, st'))))"

datatype command_line = Line string | Lines "string list"

text \<open>
  \<^verbatim>\<open>onecmd\<close>. For a list, one \<^verbatim>\<open>multiprocessing.Process\<close> per sub-command is created
  and started, in order, and then each is joined, in order; \<^verbatim>\<open>None\<close> is returned. Each
  process runs \<^verbatim>\<open>self.onecmd(sub_command)\<close> on its own copy of the console, so the
  state of the caller is not changed. The second component lists the runs of the
  processes, one per sub-command; how their outputs interleave is not part of the model.
\<close>

definition onecmd :: "dispatch \<Rightarrow> command_line \<Rightarrow> console \<Rightarrow> (bool option) result \<times> (bool option) result list" where
  "onecmd dispatch l st =
     (case l of
        Lines subs \<Rightarrow>
          ((Inr None,
            map EvProcessStart [0..<length subs] @ map EvProcessJoin [0..<length subs], st),
           map (\<lambda>sub_command. onecmd_line dispatch sub_command st) subs)
      | Line line \<Rightarrow> (onecmd_line dispatch line st, []))"

section \<open>Leasing a job: \<^verbatim>\<open>VtiEndpointClient.LeaseJob\<close>\<close>

text \<open>What \<^verbatim>\<open>json.loads\<close> returns; an object is the list of its members.\<close>

datatype json =
    JNull | JBool bool | JNum int | JStr string | JArr "json list" | JObj "(string \<times> json) list"

text \<open>
  The response of \<^verbatim>\<open>requests.post\<close> as \<^verbatim>\<open>LeaseJob\<close> reads it: the status code and
  what \<^verbatim>\<open>json.loads(response.text)\<close> gives (ValueError when the text is not JSON).
\<close>

record response =
  status_code :: int
  loads_text :: "exception + json"

text \<open>Truth value of a JSON value in a condition.\<close>

fun truthy :: "json \<Rightarrow> bool" where
  "truthy JNull = False"
| "truthy (JBool b) = b"
| "truthy (JNum n) = (n \<noteq> 0)"
| "truthy (JStr s) = (s \<noteq> [])"
| "truthy (JArr xs) = (xs \<noteq> [])"
| "truthy (JObj kv) = (kv \<noteq> [])"

text \<open>\<^verbatim>\<open>key in value\<close>: a member name of an object, an element of a list, a substring.\<close>

fun py_contains :: "string \<Rightarrow> json \<Rightarrow> exception + bool" where
  "py_contains key (JObj kv) = Inr (map_of kv key \<noteq> None)"
| "py_contains key (JArr xs) = Inr (JStr key \<in> set xs)"
| "py_contains key (JStr s) = Inr (occurs key s)"
| "py_contains key v = Inl (Exc TypeError ''argument is not iterable'')"

text \<open>\<^verbatim>\<open>value[key]\<close> for a string key.\<close>

fun py_getitem :: "json \<Rightarrow> string \<Rightarrow> exception + json" where
  "py_getitem (JObj kv) key =
     (case map_of kv key of
        None \<Rightarrow> Inl (Exc KeyError (CHR 0x27 # key @ [CHR 0x27]))
      | Some v \<Rightarrow> Inr v)"
| "py_getitem (JArr xs) key = Inl (Exc TypeError ''list indices must be integers, not str'')"
| "py_getitem (JStr s) key = Inl (Exc TypeError ''string indices must be integers, not str'')"
| "py_getitem v key = Inl (Exc TypeError ''object has no attribute __getitem__'')"

text \<open>
  \<^verbatim>\<open>"return_code" in response_json and response_json["return_code"] != "SUCCESS"\<close>.
\<close>

definition return_code_failed :: "json \<Rightarrow> exception + bool" where
  "return_code_failed response_json =
     (case py_contains ''return_code'' response_json of
        Inl e \<Rightarrow> Inl e
      | Inr False \<Rightarrow> Inr False
      | Inr True \<Rightarrow>
          (case py_getitem response_json ''return_code'' of
             Inl e \<Rightarrow> Inl e
           | Inr v \<Rightarrow> Inr (v \<noteq> JStr ''SUCCESS'')))"

text \<open>
  The end of \<^verbatim>\<open>LeaseJob\<close>: \<^verbatim>\<open>if jobs and len(jobs) > 0: for job in jobs: return
  job["test_name"].split("/")[0], job\<close>, and \<^verbatim>\<open>return None, {}\<close> otherwise. Iterating a
  string gives its characters, iterating an object its member names.
\<close>

definition job_result :: "json \<Rightarrow> exception + string option \<times> json" where
  "job_result job =
     (case py_getitem job ''test_name'' of
        Inl e \<Rightarrow> Inl e
      | Inr (JStr t) \<Rightarrow> Inr (Some (takeWhile (\<lambda>c. c \<noteq> CHR ''/'') t), job)
      | Inr v \<Rightarrow> Inl (Exc AttributeError ''object has no attribute split''))"

definition first_job :: "json \<Rightarrow> exception + string option \<times> json" where
  "first_job jobs =
     (if truthy jobs
      then (case jobs of
              JArr (job # rest) \<Rightarrow> job_result job
            | JStr (c # rest) \<Rightarrow> job_result (JStr [c])
            | JObj ((k, v) # rest) \<Rightarrow> job_result (JStr k)
            | _ \<Rightarrow> Inl (Exc TypeError ''object has no len()''))
      else Inr (None, JObj []))"

definition LeaseJob :: "(string \<Rightarrow> exception + response) \<Rightarrow> string \<Rightarrow> (exception + string option \<times> json) \<times> event list" where
  "LeaseJob post host_name =
     (if host_name = [] then (Inr (None, JObj []), [])
      else (case post host_name of
              Inl e \<Rightarrow> (Inl e, [EvPostLeaseJob host_name])
            | Inr response \<Rightarrow>
                (if status_code response \<noteq> status_ok
                 then (Inr (None, JObj []),
                       [EvPostLeaseJob host_name,
                        EvPrint (''LeaseJob error: '' @ str_int (status_code response))])
                 else (case loads_text response of
                         Inl e \<Rightarrow> (Inl e, [EvPostLeaseJob host_name])
                       | Inr response_json \<Rightarrow>
                           (case return_code_failed response_json of
                              Inl e \<Rightarrow> (Inl e, [EvPostLeaseJob host_name])
                            | Inr True \<Rightarrow>
                                (Inr (None, JObj []),
                                 [EvPostLeaseJob host_name, EvPrint ''LeaseJob error''])
                            | Inr False \<Rightarrow>
                                (case py_contains ''jobs'' response_json of
                                   Inl e \<Rightarrow> (Inl e, [EvPostLeaseJob host_name])
                                 | Inr False \<Rightarrow>
                                     (Inr (None, JObj []),
                                      [EvPostLeaseJob host_name,
                                       EvPrint ''LeaseJob jobs not found in response json''])
                                 | Inr True \<Rightarrow>
                                     (case py_getitem response_json ''jobs'' of
                                        Inl e \<Rightarrow> (Inl e, [EvPostLeaseJob host_name])
                                      | Inr jobs \<Rightarrow> (first_job jobs, [EvPostLeaseJob host_name]))))))))"

section \<open>Example inputs\<close>

definition example_env :: env where
  "example_env =
     \<lparr> pab_Authenticate = None, pab_GetBuildList = (\<lambda>a b t. Inr [\<lparr> successful = True, listed_build_id = ''4329875'' \<rparr>]),
       post_build_info = (\<lambda>b. Inr 200),
       vti_device_update = (\<lambda>h. (Inr (), [])), tfc_device_update = (\<lambda>h. (Inr (), [])),
       config_update = (\<lambda>a b t c m. (Inr (), [])) \<rparr>"

definition example_build_args :: "string \<Rightarrow> string option \<Rightarrow> int \<Rightarrow> build_args" where
  "example_build_args mode i n =
     \<lparr> b_update = mode, b_id = i, b_interval = n, b_artifact_type = ''device'',
       b_branch = ''master'', b_target = ''aosp_arm64-userdebug'', b_account_id = ''543365459'' \<rparr>"

definition example_config_args :: "string \<Rightarrow> string option \<Rightarrow> int \<Rightarrow> config_args" where
  "example_config_args mode i n =
     \<lparr> c_update = mode, c_id = i, c_interval = n, c_config_type = ''prod'',
       c_branch = ''master'', c_target = ''aosp_arm64-userdebug'', c_account_id = ''543365459'',
       c_method = ''GET'' \<rparr>"

definition example_registry :: console where
  "example_registry =
     run_commands example_env
       [Build (example_build_args ''start'' (Some ''1'') 30),
        Config (example_config_args ''start'' (Some ''1'') 60)] init_console"


text \<open>
  A local directory provider with three directories: \<open>first\<close> holds artifact \<open>a\<close>,
  \<open>second\<close> holds \<open>b\<close>, \<open>third\<close> holds a newer \<open>a\<close>. The other providers are
  unreachable.
\<close>

definition example_providers :: providers where
  "example_providers =
     \<lparr> pab_Authenticate_userinfo = (\<lambda>u. Some (Exc SocketError ''[Errno 111] Connection refused'')),
       pab_GetArtifact = (\<lambda>a b t n i m. Inl (Exc SocketError ''[Errno 111] Connection refused'')),
       local_fs_Fetch =
         (\<lambda>path. if path = Some ''first'' then Inr ([''a'' \<mapsto> ''/x''], Map.empty)
                  else if path = Some ''second'' then Inr ([''b'' \<mapsto> ''/y''], Map.empty)
                  else if path = Some ''third'' then Inr ([''a'' \<mapsto> ''/z''], Map.empty)
                  else Inl (Exc (OtherException ''OSError'') ''No such file or directory'')),
       gcs_Fetch = (\<lambda>path tool. Inl (Exc SocketError ''[Errno 111] Connection refused'')),
       ab_Fetch = (\<lambda>b t n i. Inl (Exc SocketError ''[Errno 111] Connection refused'')) \<rparr>"

definition example_fetch_args :: "string \<Rightarrow> fetch_args" where
  "example_fetch_args path =
     \<lparr> f_type = ''local_fs'', f_method = ''GET'', f_path = Some path, f_branch = None,
       f_target = None, f_account_id = ''543365459'', f_build_id = ''latest'',
       f_artifact_name = None, f_userinfo_file = None, f_tool = None \<rparr>"

definition example_fetched_twice :: console where
  "example_fetched_twice =
     run_console [CmdFetch example_providers (example_fetch_args ''first''),
                  CmdFetch example_providers (example_fetch_args ''second'')] init_console"

text \<open>A plain \<^verbatim>\<open>flash\<close> command line with the parser's defaults, and one with a tool name.\<close>

definition example_flash_args :: "string option \<Rightarrow> flash_args" where
  "example_flash_args tool =
     \<lparr> fl_current = None, fl_serial = [], fl_build_dir = None, fl_gsi = None, fl_vbmeta = None,
       fl_flasher_type = Some ''fastboot'', fl_flasher_path = tool,
       fl_reboot_mode = ''bootloader'', fl_arg_flasher = None, fl_repackage = Some ''tar.md5'' \<rparr>"

definition example_images :: console where
  "example_images =
     init_console\<lparr> device_image_info := [''system.img'' \<mapsto> ''/s'', ''boot.img'' \<mapsto> ''/b''] \<rparr>"

definition example_gsi_env :: gsi_env where
  "example_gsi_env =
     \<lparr> isfile = (\<lambda>p. True), abspath_dirname = (\<lambda>p. ''/tmp''),
       ExecuteOneShellCommand = (\<lambda>c. ([], [], 0)) \<rparr>"

text \<open>
  Handlers for three lines: \<^verbatim>\<open>info\<close> prints, \<^verbatim>\<open>lease\<close> raises as \<^verbatim>\<open>do_lease\<close> does
  with more than one host, \<^verbatim>\<open>exit\<close> returns \<^verbatim>\<open>True\<close>.
\<close>

definition example_dispatch :: dispatch where
  "example_dispatch line st =
     (if line = ''info'' then (Inr None, [EvPrint ''fetch info: {}''], st)
      else if line = ''lease'' then (Inl (Exc ConsoleArgumentError ''More than one hosts.''), [], st)
      else if line = ''exit'' then (Inr (Some True), [], st)
      else (Inr None, [EvPrint (''*** Unknown syntax: '' @ line)], st))"

text \<open>An endpoint that leases one job to every host.\<close>

definition example_job :: json where
  "example_job = JObj [(''test_name'', JStr ''vts/vts-hal''), (''device'', JStr ''sailfish'')]"

definition example_post :: "string \<Rightarrow> exception + response" where
  "example_post h =
     Inr \<lparr> status_code = 200,
           loads_text = Inr (JObj [(''return_code'', JStr ''SUCCESS''),
                                   (''jobs'', JArr [example_job])]) \<rparr>"

section \<open>The session registries\<close>

lemma py_int_1: "py_int ''1'' = Inr 1"
  by (simp add: py_int_def strip_def is_space_def is_digit_def digits_val_def digit_val_def)

lemma auto_id_fresh:
  fixes reg :: "(int, 'v) fmap"
  assumes "i \<in> fmdom' reg"
  shows "Max (fmdom' reg) + 1 \<noteq> i"
proof -
  have "i \<le> Max (fmdom' reg)"
    using assms by (simp add: Max_ge)
  then show ?thesis by linarith
qed

lemma new_id_fresh:
  fixes reg :: "(int, 'v) fmap"
  shows "(if reg = fmempty then 1 else Max (fmdom' reg) + 1) \<notin> fmdom' reg"
  using auto_id_fresh[of _ reg] by auto

lemma new_id_not_running:
  "\<not> session_running reg (if reg = fmempty then 1 else Max (fmdom' reg) + 1)"
  using new_id_fresh[of reg]
  by (auto simp: session_running_def fmlookup_dom'_iff split: option.splits)

lemma stopped_not_running: "session_stopped reg i \<Longrightarrow> \<not> session_running reg i"
  by (auto simp: session_stopped_def session_running_def split: option.splits)

lemma stopped_in_dom: "session_stopped reg i \<Longrightarrow> i \<in> fmdom' reg"
  by (auto simp: session_stopped_def fmlookup_dom'_iff split: option.splits)

lemma build_start_running:
  assumes "build_names a ''start'' i" "0 < b_interval a" "session_running (build_thread st) i"
  shows "do_build e a st = (Inr (), [EvPrint (build_already_running i)], st)"
  using assms by (auto simp: build_names_def do_build_def session_id_def split: option.splits)

lemma build_start_not_running:
  assumes "build_names a ''start'' i" "0 < b_interval a" "\<not> session_running (build_thread st) i"
  shows "do_build e a st =
           (Inr (), [EvThreadStart (build_session a)],
            st\<lparr>build_thread := fmupd i (build_session a) (build_thread st)\<rparr>)"
  using assms
  by (auto simp: build_names_def do_build_def session_id_def build_session_def Let_def
           split: option.splits)

lemma build_stop_stopped:
  assumes "build_names a ''stop'' i" "i \<in> fmdom' (build_thread st)"
  shows "session_stopped (build_thread (run_command e (Build a) st)) i"
  using assms
  by (auto simp: build_names_def do_build_def session_stopped_def fmlookup_dom'_iff
           split: option.splits)

lemma run_command_keeps_stopped_build:
  assumes "session_stopped (build_thread st) i" "\<not> starts_build i c"
  shows "session_stopped (build_thread (run_command e c st)) i"
proof (cases c)
  case (Build a)
  have dom: "i \<in> fmdom' (build_thread st)"
    using assms(1) by (rule stopped_in_dom)
  show ?thesis using assms auto_id_fresh[OF dom] Build
    by (auto simp: do_build_def build_names_def session_id_def session_stopped_def Let_def
             split: option.splits sum.splits prod.splits if_splits)
next
  case (Config a)
  then show ?thesis using assms
    by (auto simp: do_config_def Let_def split: option.splits sum.splits prod.splits if_splits)
qed

lemma run_commands_keeps_stopped_build:
  assumes "session_stopped (build_thread st) i" "\<forall>c \<in> set cs. \<not> starts_build i c"
  shows "session_stopped (build_thread (run_commands e cs st)) i"
  using assms
  by (induction cs arbitrary: st) (auto intro: run_command_keeps_stopped_build)

lemma config_start_running:
  assumes "config_names a ''start'' i" "0 < c_interval a" "session_running (schedule_thread st) i"
  shows "do_config e a st = (Inr (), [EvPrint (config_already_running i)], st)"
  using assms by (auto simp: config_names_def do_config_def session_id_def split: option.splits)

lemma config_start_not_running:
  assumes "config_names a ''start'' i" "0 < c_interval a" "\<not> session_running (schedule_thread st) i"
  shows "do_config e a st =
           (Inr (), [EvThreadStart (config_session a)],
            st\<lparr>schedule_thread := fmupd i (config_session a) (schedule_thread st)\<rparr>)"
  using assms
  by (auto simp: config_names_def do_config_def session_id_def config_session_def Let_def
           split: option.splits)

lemma config_stop_stopped:
  assumes "config_names a ''stop'' i" "i \<in> fmdom' (schedule_thread st)"
  shows "session_stopped (schedule_thread (run_command e (Config a) st)) i"
  using assms
  by (auto simp: config_names_def do_config_def session_stopped_def fmlookup_dom'_iff
           split: option.splits)

lemma run_command_keeps_stopped_config:
  assumes "session_stopped (schedule_thread st) i" "\<not> starts_config i c"
  shows "session_stopped (schedule_thread (run_command e c st)) i"
proof (cases c)
  case (Config a)
  have dom: "i \<in> fmdom' (schedule_thread st)"
    using assms(1) by (rule stopped_in_dom)
  show ?thesis using assms auto_id_fresh[OF dom] Config
    by (auto simp: do_config_def config_names_def session_id_def session_stopped_def Let_def
             split: option.splits sum.splits prod.splits if_splits)
next
  case (Build a)
  then show ?thesis using assms
    by (auto simp: do_build_def Let_def split: option.splits sum.splits prod.splits if_splits)
qed

lemma run_commands_keeps_stopped_config:
  assumes "session_stopped (schedule_thread st) i" "\<forall>c \<in> set cs. \<not> starts_config i c"
  shows "session_stopped (schedule_thread (run_commands e cs st)) i"
  using assms
  by (induction cs arbitrary: st) (auto intro: run_command_keeps_stopped_config)

lemma new_thread_running: "session_running (fmupd i (new_thread c) reg) i"
  by (simp add: session_running_def new_thread_def)

lemma build_start_auto:
  assumes "b_update a = ''start''" "b_id a = None" "0 < b_interval a"
  shows "do_build e a st =
           (Inr (), [EvThreadStart (build_session a)],
            st\<lparr>build_thread :=
                  fmupd (if build_thread st = fmempty then 1 else Max (fmdom' (build_thread st)) + 1)
                        (build_session a) (build_thread st)\<rparr>)"
  using assms new_id_not_running[of "build_thread st"]
  by (simp add: do_build_def session_id_def build_session_def Let_def)

lemma config_start_auto:
  assumes "c_update a = ''start''" "c_id a = None" "0 < c_interval a"
  shows "do_config e a st =
           (Inr (), [EvThreadStart (config_session a)],
            st\<lparr>schedule_thread :=
                  fmupd (if schedule_thread st = fmempty then 1 else Max (fmdom' (schedule_thread st)) + 1)
                        (config_session a) (schedule_thread st)\<rparr>)"
  using assms new_id_not_running[of "schedule_thread st"]
  by (simp add: do_config_def session_id_def config_session_def Let_def)

lemma build_start_running_frame:
  assumes "build_names a ''start'' i" "session_running (build_thread st) i"
  shows "snd (snd (do_build e a st)) = st \<and> (\<forall>t. EvThreadStart t \<notin> set (fst (snd (do_build e a st))))"
  using assms by (auto simp: build_names_def do_build_def session_id_def split: option.splits)

lemma config_start_running_frame:
  assumes "config_names a ''start'' i" "session_running (schedule_thread st) i"
  shows "snd (snd (do_config e a st)) = st \<and> (\<forall>t. EvThreadStart t \<notin> set (fst (snd (do_config e a st))))"
  using assms by (auto simp: config_names_def do_config_def session_id_def split: option.splits)

text \<open>
  Claim C1. After any sequence of build and config commands, a start command with an
  explicit \<^verbatim>\<open>--id\<close> (and a positive interval, which the command checks first) whose
  entry is flagged running only prints the already-running message: the console state
  is returned as it was and no thread is started. Once a stop command has marked that
  id, and whatever commands other than an explicit start of the same id follow, a start
  command with that id starts a thread and registers it, running, under the id. Both
  hold for the build registry and for the config registry.
\<close>

theorem running_id_rejected_and_restart_after_stop:
  assumes "build_names a ''start'' i" and "0 < b_interval a"
    and "config_names ca ''start'' i" and "0 < c_interval ca"
    and "st = run_commands e pre st0"
  shows "(session_running (build_thread st) i \<longrightarrow>
            do_build e a st = (Inr (), [EvPrint (build_already_running i)], st))
       \<and> (session_running (schedule_thread st) i \<longrightarrow>
            do_config e ca st = (Inr (), [EvPrint (config_already_running i)], st))
       \<and> (build_names sa ''stop'' i \<and> i \<in> fmdom' (build_thread st)
            \<and> (\<forall>c \<in> set mid. \<not> starts_build i c) \<longrightarrow>
            (let st' = run_commands e mid (run_command e (Build sa) st) in
               do_build e a st' =
                 (Inr (), [EvThreadStart (build_session a)],
                  st'\<lparr>build_thread := fmupd i (build_session a) (build_thread st')\<rparr>)
               \<and> session_running (fmupd i (build_session a) (build_thread st')) i))
       \<and> (config_names sc ''stop'' i \<and> i \<in> fmdom' (schedule_thread st)
            \<and> (\<forall>c \<in> set cmid. \<not> starts_config i c) \<longrightarrow>
            (let st' = run_commands e cmid (run_command e (Config sc) st) in
               do_config e ca st' =
                 (Inr (), [EvThreadStart (config_session ca)],
                  st'\<lparr>schedule_thread := fmupd i (config_session ca) (schedule_thread st')\<rparr>)
               \<and> session_running (fmupd i (config_session ca) (schedule_thread st')) i))"
proof (intro conjI impI)
  assume "session_running (build_thread st) i"
  then show "do_build e a st = (Inr (), [EvPrint (build_already_running i)], st)"
    using assms(1,2) by (rule build_start_running[rotated 2])
next
  assume "session_running (schedule_thread st) i"
  then show "do_config e ca st = (Inr (), [EvPrint (config_already_running i)], st)"
    using assms(3,4) by (rule config_start_running[rotated 2])
next
  assume h: "build_names sa ''stop'' i \<and> i \<in> fmdom' (build_thread st)
               \<and> (\<forall>c \<in> set mid. \<not> starts_build i c)"
  define st' where "st' = run_commands e mid (run_command e (Build sa) st)"
  have "session_stopped (build_thread (run_command e (Build sa) st)) i"
    using h build_stop_stopped by blast
  then have "session_stopped (build_thread st') i"
    unfolding st'_def using h run_commands_keeps_stopped_build by blast
  then have "\<not> session_running (build_thread st') i"
    by (rule stopped_not_running)
  then have "do_build e a st' =
                 (Inr (), [EvThreadStart (build_session a)],
                  st'\<lparr>build_thread := fmupd i (build_session a) (build_thread st')\<rparr>)"
    using assms(1,2) by (simp add: build_start_not_running)
  moreover have "session_running (fmupd i (build_session a) (build_thread st')) i"
    by (simp add: build_session_def new_thread_running)
  ultimately show "let st' = run_commands e mid (run_command e (Build sa) st) in
               do_build e a st' =
                 (Inr (), [EvThreadStart (build_session a)],
                  st'\<lparr>build_thread := fmupd i (build_session a) (build_thread st')\<rparr>)
               \<and> session_running (fmupd i (build_session a) (build_thread st')) i"
    unfolding st'_def Let_def by simp
next
  assume h: "config_names sc ''stop'' i \<and> i \<in> fmdom' (schedule_thread st)
               \<and> (\<forall>c \<in> set cmid. \<not> starts_config i c)"
  define st' where "st' = run_commands e cmid (run_command e (Config sc) st)"
  have "session_stopped (schedule_thread (run_command e (Config sc) st)) i"
    using h config_stop_stopped by blast
  then have "session_stopped (schedule_thread st') i"
    unfolding st'_def using h run_commands_keeps_stopped_config by blast
  then have "\<not> session_running (schedule_thread st') i"
    by (rule stopped_not_running)
  then have "do_config e ca st' =
                 (Inr (), [EvThreadStart (config_session ca)],
                  st'\<lparr>schedule_thread := fmupd i (config_session ca) (schedule_thread st')\<rparr>)"
    using assms(3,4) by (simp add: config_start_not_running)
  moreover have "session_running (fmupd i (config_session ca) (schedule_thread st')) i"
    by (simp add: config_session_def new_thread_running)
  ultimately show "let st' = run_commands e cmid (run_command e (Config sc) st) in
               do_config e ca st' =
                 (Inr (), [EvThreadStart (config_session ca)],
                  st'\<lparr>schedule_thread := fmupd i (config_session ca) (schedule_thread st')\<rparr>)
               \<and> session_running (fmupd i (config_session ca) (schedule_thread st')) i"
    unfolding st'_def Let_def by simp
qed

lemma example_names:
  "build_names (example_build_args m (Some ''1'') n) m 1"
  "config_names (example_config_args m (Some ''1'') n) m 1"
  by (simp_all add: build_names_def config_names_def example_build_args_def
        example_config_args_def py_int_1)

lemma example_started:
  "build_thread (run_commands example_env
      [Build (example_build_args ''start'' (Some ''1'') 30),
       Config (example_config_args ''start'' (Some ''1'') 60)] init_console)
     = fmupd 1 (build_session (example_build_args ''start'' (Some ''1'') 30)) fmempty"
  "schedule_thread (run_commands example_env
      [Build (example_build_args ''start'' (Some ''1'') 30),
       Config (example_config_args ''start'' (Some ''1'') 60)] init_console)
     = fmupd 1 (config_session (example_config_args ''start'' (Some ''1'') 60)) fmempty"
  by (simp_all add: do_build_def do_config_def session_id_def py_int_1 build_session_def
        config_session_def session_running_def init_console_def example_build_args_def
        example_config_args_def Let_def)

lemma example_registry_threads:
  "build_thread example_registry
     = fmupd 1 (build_session (example_build_args ''start'' (Some ''1'') 30)) fmempty"
  "schedule_thread example_registry
     = fmupd 1 (config_session (example_config_args ''start'' (Some ''1'') 60)) fmempty"
  unfolding example_registry_def by (rule example_started)+

lemma example_registry_running:
  "session_running (build_thread example_registry) 1"
  "session_running (schedule_thread example_registry) 1"
  by (simp_all add: example_registry_threads session_running_def
        build_session_def config_session_def new_thread_def)

lemma example_auto_start_other:
  "\<not> starts_build 1 (Build (example_build_args ''start'' None 30))"
  "\<not> starts_config 1 (Config (example_config_args ''start'' None 60))"
  by (simp_all add: build_names_def config_names_def example_build_args_def example_config_args_def)

theorem running_id_rejected_and_restart_after_stop_witness:
  "build_names (example_build_args ''start'' (Some ''1'') 30) ''start'' 1
   \<and> session_running (build_thread example_registry) 1
   \<and> do_build example_env (example_build_args ''start'' (Some ''1'') 30) example_registry
       = (Inr (), [EvPrint (build_already_running 1)], example_registry)
   \<and> session_running (schedule_thread example_registry) 1
   \<and> do_config example_env (example_config_args ''start'' (Some ''1'') 60) example_registry
       = (Inr (), [EvPrint (config_already_running 1)], example_registry)
   \<and> build_names (example_build_args ''stop'' (Some ''1'') 30) ''stop'' 1
   \<and> 1 \<in> fmdom' (build_thread example_registry)
   \<and> fst (do_build example_env (example_build_args ''start'' (Some ''1'') 30)
        (run_commands example_env [Build (example_build_args ''start'' None 30)]
           (run_command example_env (Build (example_build_args ''stop'' (Some ''1'') 30))
              example_registry))) = Inr ()
   \<and> fst (snd (do_build example_env (example_build_args ''start'' (Some ''1'') 30)
        (run_commands example_env [Build (example_build_args ''start'' None 30)]
           (run_command example_env (Build (example_build_args ''stop'' (Some ''1'') 30))
              example_registry))))
       = [EvThreadStart (build_session (example_build_args ''start'' (Some ''1'') 30))]
   \<and> 1 \<in> fmdom' (schedule_thread example_registry)
   \<and> fst (snd (do_config example_env (example_config_args ''start'' (Some ''1'') 60)
        (run_commands example_env [Config (example_config_args ''start'' None 60)]
           (run_command example_env (Config (example_config_args ''stop'' (Some ''1'') 60))
              example_registry))))
       = [EvThreadStart (config_session (example_config_args ''start'' (Some ''1'') 60))]"
proof -
  have i1: "0 < b_interval (example_build_args ''start'' (Some ''1'') 30)"
    and i2: "0 < c_interval (example_config_args ''start'' (Some ''1'') 60)"
    by (simp_all add: example_build_args_def example_config_args_def)
  have d: "1 \<in> fmdom' (build_thread example_registry)"
    "1 \<in> fmdom' (schedule_thread example_registry)"
    by (simp_all add: example_registry_threads)
  have m: "\<forall>c \<in> set [Build (example_build_args ''start'' None 30)]. \<not> starts_build 1 c"
    "\<forall>c \<in> set [Config (example_config_args ''start'' None 60)]. \<not> starts_config 1 c"
    using example_auto_start_other by simp_all
  note T = running_id_rejected_and_restart_after_stop
             [OF example_names(1) i1 example_names(2) i2 example_registry_def,
              of "example_build_args ''stop'' (Some ''1'') 30"
                 "[Build (example_build_args ''start'' None 30)]"
                 "example_config_args ''stop'' (Some ''1'') 60"
                 "[Config (example_config_args ''start'' None 60)]"]
  show ?thesis
    using T example_registry_running d m example_names
    by (simp add: Let_def)
qed

lemma three_build_starts:
  assumes "b_update a = ''start''" "b_id a = None" "0 < b_interval a"
  shows "build_thread (run_commands e [Build a] init_console) = fmupd 1 (build_session a) fmempty"
    and "build_thread (run_commands e [Build a, Build a] init_console)
           = fmupd 2 (build_session a) (fmupd 1 (build_session a) fmempty)"
    and "build_thread (run_commands e [Build a, Build a, Build a] init_console)
           = fmupd 3 (build_session a) (fmupd 2 (build_session a) (fmupd 1 (build_session a) fmempty))"
  using assms by (simp_all add: build_start_auto init_console_def)

lemma three_config_starts:
  assumes "c_update a = ''start''" "c_id a = None" "0 < c_interval a"
  shows "schedule_thread (run_commands e [Config a] init_console) = fmupd 1 (config_session a) fmempty"
    and "schedule_thread (run_commands e [Config a, Config a] init_console)
           = fmupd 2 (config_session a) (fmupd 1 (config_session a) fmempty)"
    and "schedule_thread (run_commands e [Config a, Config a, Config a] init_console)
           = fmupd 3 (config_session a) (fmupd 2 (config_session a) (fmupd 1 (config_session a) fmempty))"
  using assms by (simp_all add: config_start_auto init_console_def)

text \<open>
  Claim C2. A start command without \<^verbatim>\<open>--id\<close> (and with a positive interval) registers
  its thread under 1 when the registry of its kind is empty and under the largest
  registered id plus one otherwise; that id is not registered before. Three such
  commands on the initial console register the ids 1, then 2, then 3.
\<close>

theorem auto_assigned_session_id:
  assumes "b_update a = ''start''" and "b_id a = None" and "0 < b_interval a"
    and "c_update ca = ''start''" and "c_id ca = None" and "0 < c_interval ca"
  shows "(let reg = build_thread st;
              j = (if reg = fmempty then 1 else Max (fmdom' reg) + 1)
          in j \<notin> fmdom' reg
             \<and> do_build e a st = (Inr (), [EvThreadStart (build_session a)],
                                   st\<lparr>build_thread := fmupd j (build_session a) reg\<rparr>))
       \<and> (let reg = schedule_thread st;
              j = (if reg = fmempty then 1 else Max (fmdom' reg) + 1)
          in j \<notin> fmdom' reg
             \<and> do_config e ca st = (Inr (), [EvThreadStart (config_session ca)],
                                   st\<lparr>schedule_thread := fmupd j (config_session ca) reg\<rparr>))
       \<and> build_thread (run_commands e [Build a] init_console) = fmupd 1 (build_session a) fmempty
       \<and> build_thread (run_commands e [Build a, Build a] init_console)
           = fmupd 2 (build_session a) (fmupd 1 (build_session a) fmempty)
       \<and> build_thread (run_commands e [Build a, Build a, Build a] init_console)
           = fmupd 3 (build_session a) (fmupd 2 (build_session a) (fmupd 1 (build_session a) fmempty))
       \<and> schedule_thread (run_commands e [Config ca] init_console) = fmupd 1 (config_session ca) fmempty
       \<and> schedule_thread (run_commands e [Config ca, Config ca] init_console)
           = fmupd 2 (config_session ca) (fmupd 1 (config_session ca) fmempty)
       \<and> schedule_thread (run_commands e [Config ca, Config ca, Config ca] init_console)
           = fmupd 3 (config_session ca) (fmupd 2 (config_session ca) (fmupd 1 (config_session ca) fmempty))"
  unfolding Let_def
  using new_id_fresh[of "build_thread st"] new_id_fresh[of "schedule_thread st"]
    build_start_auto[OF assms(1,2,3), of e st] config_start_auto[OF assms(4,5,6), of e st]
    three_build_starts[OF assms(1,2,3), of e] three_config_starts[OF assms(4,5,6), of e]
  by simp

theorem auto_assigned_session_id_witness:
  "b_update (example_build_args ''start'' None 30) = ''start''
   \<and> b_id (example_build_args ''start'' None 30) = None
   \<and> 0 < b_interval (example_build_args ''start'' None 30)
   \<and> c_update (example_config_args ''start'' None 60) = ''start''
   \<and> c_id (example_config_args ''start'' None 60) = None
   \<and> 0 < c_interval (example_config_args ''start'' None 60)
   \<and> do_build example_env (example_build_args ''start'' None 30) example_registry
        = (Inr (), [EvThreadStart (build_session (example_build_args ''start'' None 30))],
           example_registry\<lparr>build_thread :=
              fmupd 2 (build_session (example_build_args ''start'' None 30))
                (build_thread example_registry)\<rparr>)
   \<and> do_config example_env (example_config_args ''start'' None 60) example_registry
        = (Inr (), [EvThreadStart (config_session (example_config_args ''start'' None 60))],
           example_registry\<lparr>schedule_thread :=
              fmupd 2 (config_session (example_config_args ''start'' None 60))
                (schedule_thread example_registry)\<rparr>)
   \<and> fmdom' (build_thread (run_commands example_env
        [Build (example_build_args ''start'' None 30), Build (example_build_args ''start'' None 30),
         Build (example_build_args ''start'' None 30)] init_console)) = {1, 2, 3}"
proof -
  have h: "b_update (example_build_args ''start'' None 30) = ''start''"
    "b_id (example_build_args ''start'' None 30) = None"
    "0 < b_interval (example_build_args ''start'' None 30)"
    "c_update (example_config_args ''start'' None 60) = ''start''"
    "c_id (example_config_args ''start'' None 60) = None"
    "0 < c_interval (example_config_args ''start'' None 60)"
    by (simp_all add: example_build_args_def example_config_args_def)
  have m: "(if build_thread example_registry = fmempty then 1
            else Max (fmdom' (build_thread example_registry)) + 1) = 2"
    "(if schedule_thread example_registry = fmempty then 1
            else Max (fmdom' (schedule_thread example_registry)) + 1) = 2"
    by (simp_all add: example_registry_threads)
  note T = auto_assigned_session_id[OF h, of example_registry example_env]
  have "fmdom' (fmupd (3::int) x (fmupd 2 y (fmupd 1 z fmempty))) = {1, 2, 3}" for x y z :: thread
    by auto
  then show ?thesis using T h m unfolding Let_def by simp
qed

section \<open>The single build update\<close>

lemma str_nat_5: "str_nat (Suc (Suc (Suc (Suc (Suc 0))))) = ''5''"
  by (simp add: digit_char_def)

lemma do_build_single:
  assumes "b_update a = ''single''"
  shows "do_build e a st
           = (Inl (Exc TypeError ''UpdateDevice() takes exactly 3 arguments (5 given)''), [], st)"
  using assms by (simp add: do_build_def UpdateDevice_apply_def digit_char_def)

lemma UpdateBuild_example:
  "UpdateBuild example_env ''543365459'' ''master'' ''aosp_arm64-userdebug'' ''device''
     = (Inr (), [EvAuthenticate,
                 EvGetBuildList ''543365459'' ''master'' ''aosp_arm64-userdebug'',
                 EvPostBuildInfo \<lparr> manifest_branch = ''master'', build_id = ''4329875'',
                                   build_target = ''aosp_arm64'', build_type = ''userdebug'',
                                   artifact_type = ''device'', artifacts = [] \<rparr>])"
  by (simp add: UpdateBuild_def example_env_def make_build_def UploadBuildInfo_def status_ok_def)

text \<open>
  Claim C3. \<^verbatim>\<open>build --update=single\<close> does not run a build-info update: the command
  calls \<^verbatim>\<open>UpdateDevice\<close> with four arguments, which raises TypeError before any
  collaborator is called. The unit of work that a build session repeats,
  \<^verbatim>\<open>UpdateBuild\<close>, would authenticate, list the builds of the target and upload them.
\<close>

theorem build_update_single_raises_TypeError:
  "do_build example_env (example_build_args ''single'' None 30) init_console
     = (Inl (Exc TypeError ''UpdateDevice() takes exactly 3 arguments (5 given)''), [], init_console)
   \<and> UpdateBuild example_env (b_account_id (example_build_args ''single'' None 30))
        (b_branch (example_build_args ''single'' None 30))
        (b_target (example_build_args ''single'' None 30))
        (b_artifact_type (example_build_args ''single'' None 30))
     = (Inr (), [EvAuthenticate,
                 EvGetBuildList ''543365459'' ''master'' ''aosp_arm64-userdebug'',
                 EvPostBuildInfo \<lparr> manifest_branch = ''master'', build_id = ''4329875'',
                                   build_target = ''aosp_arm64'', build_type = ''userdebug'',
                                   artifact_type = ''device'', artifacts = [] \<rparr>])"
  using do_build_single[of "example_build_args ''single'' None 30" example_env init_console]
    UpdateBuild_example
  by (simp add: example_build_args_def)

section \<open>The polling loops, iteration by iteration\<close>













section \<open>Fetched artifacts accumulate\<close>

lemma do_fetch_success:
  assumes "do_fetch p a st = (Inr (), evs, st')"
    and "f_type a \<in> {''pab'', ''local_fs'', ''gcs'', ''ab''}"
  shows "\<exists>di ts. fetched p a = Inr (di, ts)
           \<and> device_image_info st' = device_image_info st ++ di
           \<and> test_suite_info st' = test_suite_info st ++ ts"
  using assms
  by (auto simp: do_fetch_def fetched_def fetch_update_def
           split: if_splits option.splits sum.splits prod.splits)

text \<open>
  Claim C5. When a fetch with one of the four provider types returns without an
  exception, the provider has returned a pair of artifact dictionaries, and in the
  device-image and the test-suite dictionary of the console every key the provider
  reported now has the reported path while every other key has the value it had before.
\<close>

theorem fetch_merges_accumulatively:
  assumes "do_fetch p a st = (Inr (), evs, st')"
    and "f_type a \<in> {''pab'', ''local_fs'', ''gcs'', ''ab''}"
  shows "\<exists>di ts. fetched p a = Inr (di, ts)
           \<and> (\<forall>k v. di k = Some v \<longrightarrow> device_image_info st' k = Some v)
           \<and> (\<forall>k. di k = None \<longrightarrow> device_image_info st' k = device_image_info st k)
           \<and> (\<forall>k v. ts k = Some v \<longrightarrow> test_suite_info st' k = Some v)
           \<and> (\<forall>k. ts k = None \<longrightarrow> test_suite_info st' k = test_suite_info st k)"
proof -
  obtain di ts where f: "fetched p a = Inr (di, ts)"
    and d: "device_image_info st' = device_image_info st ++ di"
    and t: "test_suite_info st' = test_suite_info st ++ ts"
    using do_fetch_success[OF assms] by blast
  show ?thesis
    using f unfolding d t by (auto simp: map_add_def)
qed

lemma example_fetched_twice_images:
  "device_image_info example_fetched_twice = [''a'' \<mapsto> ''/x'', ''b'' \<mapsto> ''/y'']"
  by (simp add: example_fetched_twice_def do_fetch_def example_fetch_args_def
        example_providers_def fetch_update_def init_console_def)

theorem fetch_merges_accumulatively_witness:
  "fst (do_fetch example_providers (example_fetch_args ''third'') example_fetched_twice) = Inr ()
   \<and> f_type (example_fetch_args ''third'') = ''local_fs''
   \<and> fetched example_providers (example_fetch_args ''third'') = Inr ([''a'' \<mapsto> ''/z''], Map.empty)
   \<and> device_image_info example_fetched_twice ''a'' = Some ''/x''
   \<and> device_image_info example_fetched_twice ''b'' = Some ''/y''
   \<and> device_image_info (snd (snd (do_fetch example_providers (example_fetch_args ''third'')
         example_fetched_twice))) ''a'' = Some ''/z''
   \<and> device_image_info (snd (snd (do_fetch example_providers (example_fetch_args ''third'')
         example_fetched_twice))) ''b'' = Some ''/y''"
proof -
  obtain evs st' where r: "do_fetch example_providers (example_fetch_args ''third'')
      example_fetched_twice = (Inr (), evs, st')"
    by (simp add: do_fetch_def example_fetch_args_def example_providers_def)
  have ty: "f_type (example_fetch_args ''third'') \<in> {''pab'', ''local_fs'', ''gcs'', ''ab''}"
    by (simp add: example_fetch_args_def)
  have f: "fetched example_providers (example_fetch_args ''third'') = Inr ([''a'' \<mapsto> ''/z''], Map.empty)"
    by (simp add: fetched_def example_fetch_args_def example_providers_def)
  from fetch_merges_accumulatively[OF r ty] f
  have "device_image_info st' ''a'' = Some ''/z''"
    and "device_image_info st' ''b'' = device_image_info example_fetched_twice ''b''"
    by auto
  moreover have "f_type (example_fetch_args ''third'') = ''local_fs''"
    by (simp add: example_fetch_args_def)
  ultimately show ?thesis
    using f by (simp add: r example_fetched_twice_images)
qed

section \<open>The default partition dictionary of \<^verbatim>\<open>flash\<close>\<close>


























section \<open>The flasher path of \<^verbatim>\<open>flash\<close>\<close>

lemma do_fetch_tools_info:
  "tools_info st \<noteq> None \<Longrightarrow> tools_info (snd (snd (do_fetch p a st))) \<noteq> None"
  by (auto simp: do_fetch_def fetch_update_def split: option.splits sum.splits prod.splits)

lemma do_build_tools_info: "tools_info (snd (snd (do_build e a st))) = tools_info st"
  by (auto simp: do_build_def Let_def split: option.splits sum.splits prod.splits)

lemma do_config_tools_info: "tools_info (snd (snd (do_config e a st))) = tools_info st"
  by (auto simp: do_config_def Let_def split: option.splits sum.splits prod.splits)

lemma do_flash_state: "snd (snd (do_flash z a st)) = st"
  by (auto simp: do_flash_def split: option.splits sum.splits prod.splits)

lemma do_gsispl_tools_info: "tools_info (snd (snd (do_gsispl g a st))) = tools_info st"
  by (auto simp: do_gsispl_def Let_def split: option.splits sum.splits prod.splits)

lemma run_console_command_tools_info:
  "tools_info st \<noteq> None \<Longrightarrow> tools_info (run_console_command c st) \<noteq> None"
  by (cases c)
     (simp_all add: do_fetch_tools_info do_build_tools_info do_config_tools_info
        do_flash_state do_gsispl_tools_info)

lemma run_console_tools_info:
  "tools_info st \<noteq> None \<Longrightarrow> tools_info (run_console cs st) \<noteq> None"
proof (induction cs arbitrary: st)
  case Nil
  then show ?case by simp
next
  case (Cons c cs)
  show ?case
    using Cons.IH[OF run_console_command_tools_info[OF Cons.prems]] by simp
qed

lemma do_flash_missing_key:
  assumes "tools_info st = Some ti"
    and "fl_flasher_path a = None \<or> (\<exists>k. fl_flasher_path a = Some k \<and> ti k = None)"
  shows "\<exists>m. do_flash z a st = (Inl (Exc KeyError m), [], st)"
  using assms by (auto simp: do_flash_def flash_flasher_path_def)

text \<open>
  Claim C9. In every state that a console session reaches from the initial one the
  tools dictionary is a dictionary, not \<^verbatim>\<open>None\<close>, so \<^verbatim>\<open>flash\<close> takes the
  \<^verbatim>\<open>--flasher_path\<close> argument as a key into it: a flasher path is only ever the value
  stored under that key. When the argument is absent, or is not a key of the dictionary,
  the command raises KeyError: no flashing tool is called and the state is returned as
  it was.
\<close>

theorem flash_looks_up_flasher_path:
  "tools_info (run_console cmds init_console) \<noteq> None
   \<and> (\<forall>p. flash_flasher_path a (run_console cmds init_console) = Inr p \<longrightarrow>
          (\<exists>k. fl_flasher_path a = Some k \<and> p \<noteq> None
               \<and> the (tools_info (run_console cmds init_console)) k = p))
   \<and> ((fl_flasher_path a = None
        \<or> (\<exists>k. fl_flasher_path a = Some k \<and> k \<notin> dom (the (tools_info (run_console cmds init_console)))))
       \<longrightarrow> (\<exists>m. do_flash z a (run_console cmds init_console)
                    = (Inl (Exc KeyError m), [], run_console cmds init_console)))"
proof -
  have t: "tools_info (run_console cmds init_console) \<noteq> None"
    by (rule run_console_tools_info) (simp add: init_console_def)
  then obtain ti where ti: "tools_info (run_console cmds init_console) = Some ti"
    by auto
  have l: "\<forall>p. flash_flasher_path a (run_console cmds init_console) = Inr p \<longrightarrow>
          (\<exists>k. fl_flasher_path a = Some k \<and> p \<noteq> None
               \<and> the (tools_info (run_console cmds init_console)) k = p)"
    by (auto simp: flash_flasher_path_def ti split: option.splits)
  show ?thesis
    using t l do_flash_missing_key[OF ti, of a z] by (auto simp: ti domIff)
qed

theorem flash_looks_up_flasher_path_witness:
  "tools_info (run_console [CmdFetch example_providers (example_fetch_args ''first'')] init_console)
     = Some Map.empty
   \<and> fl_flasher_path (example_flash_args None) = None
   \<and> do_flash ''full-zipfile'' (example_flash_args None)
        (run_console [CmdFetch example_providers (example_fetch_args ''first'')] init_console)
      = (Inl (Exc KeyError ''None''), [],
         run_console [CmdFetch example_providers (example_fetch_args ''first'')] init_console)
   \<and> fl_flasher_path (example_flash_args (Some ''flasher'')) = Some ''flasher''
   \<and> fst (do_flash ''full-zipfile'' (example_flash_args (Some ''flasher''))
        (run_console [CmdFetch example_providers (example_fetch_args ''first'')] init_console))
      = Inl (Exc KeyError (CHR 0x27 # ''flasher'' @ [CHR 0x27]))"
proof -
  let ?st = "run_console [CmdFetch example_providers (example_fetch_args ''first'')] init_console"
  have ti: "tools_info ?st = Some Map.empty"
    by (simp add: do_fetch_def example_fetch_args_def example_providers_def fetch_update_def
          init_console_def)
  have p: "fl_flasher_path (example_flash_args None) = None"
    "fl_flasher_path (example_flash_args (Some ''flasher'')) = Some ''flasher''"
    by (simp_all add: example_flash_args_def)
  obtain m where m: "do_flash ''full-zipfile'' (example_flash_args None) ?st
                       = (Inl (Exc KeyError m), [], ?st)"
    using flash_looks_up_flasher_path[of "[CmdFetch example_providers (example_fetch_args ''first'')]"
            "example_flash_args None" "''full-zipfile''"] p
    by auto
  have m1: "fst (do_flash ''full-zipfile'' (example_flash_args None) ?st) = Inl (Exc KeyError ''None'')"
    unfolding do_flash_def flash_flasher_path_def ti p by simp
  have m2: "fst (do_flash ''full-zipfile'' (example_flash_args (Some ''flasher'')) ?st)
              = Inl (Exc KeyError (CHR 0x27 # ''flasher'' @ [CHR 0x27]))"
    unfolding do_flash_def flash_flasher_path_def ti p by simp
  have "m = ''None''" using m m1 by simp
  then show ?thesis using ti p m m2 by simp
qed

section \<open>Malformed versions in \<^verbatim>\<open>gsispl\<close>\<close>

lemma gsispl_version_rejects:
  assumes "strptime_Ymd (g_version a) = Inl x"
  shows "gsispl_version a = Inl ''version ID should be YYYY-mm-dd format.''
         \<or> gsispl_version a = Inl ''version ID must be given.''"
  using assms by (simp add: gsispl_version_def)

text \<open>
  Claim C8. When the \<^verbatim>\<open>--version\<close> value is not a date that \<^verbatim>\<open>strptime\<close> accepts in
  the format \<^verbatim>\<open>%Y-%m-%d\<close>, \<^verbatim>\<open>gsispl\<close> prints one error message and returns: the shell
  command is not run and the console state, the device images included, is returned as
  it was. The message is about the version when a system image was found, and about the
  image otherwise.
\<close>

theorem gsispl_rejects_malformed_version:
  assumes "strptime_Ymd (g_version a) = Inl x"
  shows "\<exists>msg. do_gsispl ge a st = (Inr (), [EvPrint msg], st)
           \<and> (msg = ''version ID should be YYYY-mm-dd format.'' \<or> msg = ''version ID must be given.''
               \<or> msg = ''Cannot find system image in given path'' \<or> msg = ''Cannot find system image.'')"
proof (cases "gsispl_gsi_path ge a st")
  case (Inl msg)
  then have "do_gsispl ge a st = (Inr (), [EvPrint msg], st)"
    by (simp add: do_gsispl_def)
  moreover have "msg = ''Cannot find system image in given path'' \<or> msg = ''Cannot find system image.''"
    using Inl by (auto simp: gsispl_gsi_path_def split: if_splits option.splits)
  ultimately show ?thesis by auto
next
  case (Inr path)
  from gsispl_version_rejects[OF assms] obtain msg where v: "gsispl_version a = Inl msg"
    and m: "msg = ''version ID should be YYYY-mm-dd format.'' \<or> msg = ''version ID must be given.''"
    by auto
  have "do_gsispl ge a st = (Inr (), [EvPrint msg], st)"
    using Inr v by (simp add: do_gsispl_def)
  then show ?thesis using m by auto
qed

theorem gsispl_rejects_malformed_version_witness:
  "strptime_Ymd (g_version \<lparr> g_gsi = None, g_version = ''2020-13-40'' \<rparr>)
     = Inl (strptime_mismatch ''2020-13-40'')
   \<and> do_gsispl example_gsi_env \<lparr> g_gsi = None, g_version = ''2020-13-40'' \<rparr> example_images
       = (Inr (), [EvPrint ''version ID should be YYYY-mm-dd format.''], example_images)
   \<and> do_gsispl example_gsi_env \<lparr> g_gsi = None, g_version = ''2020-12-31'' \<rparr> example_images
       = (Inr (), [EvShell ''vts/harnesses/host_controller/gsi/change_spl.sh /s /tmp/system-2020-12-31.img 2020-12-31''],
          example_images\<lparr>device_image_info :=
             (device_image_info example_images)(''system.img'' \<mapsto> ''/tmp/system-2020-12-31.img'')\<rparr>)"
proof -
  have s: "strptime_Ymd (g_version \<lparr> g_gsi = None, g_version = ''2020-13-40'' \<rparr>)
     = Inl (strptime_mismatch ''2020-13-40'')"
    by (simp add: strptime_Ymd_def is_digit_def)
  have g: "gsispl_gsi_path example_gsi_env \<lparr> g_gsi = None, g_version = v \<rparr> example_images = Inr ''/s''" for v
    by (simp add: gsispl_gsi_path_def example_images_def)
  have v: "gsispl_version \<lparr> g_gsi = None, g_version = ''2020-13-40'' \<rparr>
             = Inl ''version ID should be YYYY-mm-dd format.''"
    by (simp add: gsispl_version_def strptime_Ymd_def is_digit_def)
  obtain msg where r: "do_gsispl example_gsi_env \<lparr> g_gsi = None, g_version = ''2020-13-40'' \<rparr> example_images
       = (Inr (), [EvPrint msg], example_images)"
    using gsispl_rejects_malformed_version[OF s] by auto
  have "msg = ''version ID should be YYYY-mm-dd format.''"
    using r g v by (simp add: do_gsispl_def)
  moreover have "gsispl_version \<lparr> g_gsi = None, g_version = ''2020-12-31'' \<rparr> = Inr ''2020-12-31''"
    by (simp add: gsispl_version_def strptime_Ymd_def is_digit_def digit_val_def digits_val_def
          days_in_month_def pad_zero_def digit_char_def)
  then have "do_gsispl example_gsi_env \<lparr> g_gsi = None, g_version = ''2020-12-31'' \<rparr> example_images
       = (Inr (), [EvShell ''vts/harnesses/host_controller/gsi/change_spl.sh /s /tmp/system-2020-12-31.img 2020-12-31''],
          example_images\<lparr>device_image_info :=
             (device_image_info example_images)(''system.img'' \<mapsto> ''/tmp/system-2020-12-31.img'')\<rparr>)"
    using g by (simp add: do_gsispl_def example_gsi_env_def path_join_def)
  ultimately show ?thesis using s r by simp
qed

section \<open>Exceptions at the dispatch boundary\<close>

lemma onecmd_line_caught:
  assumes "dispatch line st = (Inl (Exc c m), evs, st')" and "is_Exception c"
  shows "onecmd_line dispatch line st
           = (Inr None,
              (if line \<noteq> [] then [EvPrint (''Command: '' @ line)] else []) @ evs
                @ [EvPrint (class_name c @ '': '' @ m)], st')"
  using assms by (simp add: onecmd_line_def)

text \<open>
  Claim C7. When the handler of a command line raises an exception (an instance of
  \<^verbatim>\<open>Exception\<close>), \<^verbatim>\<open>onecmd\<close> does not raise: after the echo of the line and the output
  of the handler it prints the one line \<open>class name: message\<close> and returns \<^verbatim>\<open>None\<close>,
  so the command loop goes on. For a list of three lines whose second handler raises,
  three processes are started and all three are joined before \<^verbatim>\<open>onecmd\<close> returns; the
  first and the third process run exactly as their lines run alone, and the second
  prints the error of its own line.
\<close>

theorem onecmd_isolates_failures:
  assumes "dispatch line st = (Inl (Exc c m), evs, st')" and "is_Exception c"
  shows "onecmd dispatch (Line line) st
           = ((Inr None,
               (if line \<noteq> [] then [EvPrint (''Command: '' @ line)] else []) @ evs
                 @ [EvPrint (class_name c @ '': '' @ m)], st'), [])
       \<and> onecmd dispatch (Lines [l1, line, l3]) st
           = ((Inr None,
               [EvProcessStart 0, EvProcessStart 1, EvProcessStart 2,
                EvProcessJoin 0, EvProcessJoin 1, EvProcessJoin 2], st),
              [fst (onecmd dispatch (Line l1) st),
               (Inr None,
                (if line \<noteq> [] then [EvPrint (''Command: '' @ line)] else []) @ evs
                  @ [EvPrint (class_name c @ '': '' @ m)], st'),
               fst (onecmd dispatch (Line l3) st)])"
proof -
  have n: "[0..<length [l1, line, l3]] = [0, 1, 2]"
    by (simp add: upt_rec)
  show ?thesis
    unfolding onecmd_def command_line.case n
    by (simp add: onecmd_line_caught[of dispatch line st c m evs st', OF assms])
qed

theorem onecmd_isolates_failures_witness:
  "example_dispatch ''lease'' init_console
     = (Inl (Exc ConsoleArgumentError ''More than one hosts.''), [], init_console)
   \<and> is_Exception ConsoleArgumentError
   \<and> onecmd example_dispatch (Line ''lease'') init_console
       = ((Inr None, [EvPrint ''Command: lease'',
                      EvPrint ''ConsoleArgumentError: More than one hosts.''], init_console), [])
   \<and> onecmd example_dispatch (Lines [''info'', ''lease'', ''exit'']) init_console
       = ((Inr None,
           [EvProcessStart 0, EvProcessStart 1, EvProcessStart 2,
            EvProcessJoin 0, EvProcessJoin 1, EvProcessJoin 2], init_console),
          [(Inr None, [EvPrint ''Command: info'', EvPrint ''fetch info: {}''], init_console),
           (Inr None, [EvPrint ''Command: lease'',
                       EvPrint ''ConsoleArgumentError: More than one hosts.''], init_console),
           (Inr (Some True), [EvPrint ''Command: exit''], init_console)])"
proof -
  have d: "example_dispatch ''lease'' init_console
     = (Inl (Exc ConsoleArgumentError ''More than one hosts.''), [], init_console)"
    by (simp add: example_dispatch_def)
  have e: "is_Exception ConsoleArgumentError" by simp
  have a: "fst (onecmd example_dispatch (Line ''info'') init_console)
             = (Inr None, [EvPrint ''Command: info'', EvPrint ''fetch info: {}''], init_console)"
    "fst (onecmd example_dispatch (Line ''exit'') init_console)
             = (Inr (Some True), [EvPrint ''Command: exit''], init_console)"
    by (simp_all add: onecmd_def onecmd_line_def example_dispatch_def)
  show ?thesis
    using onecmd_isolates_failures[of example_dispatch "''lease''" init_console
            ConsoleArgumentError "''More than one hosts.''" "[]" init_console "''info''" "''exit''",
            OF d e] d a
    by simp
qed

section \<open>Leasing a job\<close>

lemma LeaseJob_ok_object:
  assumes "host_name \<noteq> []" "post host_name = Inr r" "status_code r = status_ok"
    "loads_text r = Inr (JObj kv)"
  shows "map_of kv ''return_code'' = Some rc \<Longrightarrow> rc \<noteq> JStr ''SUCCESS''
           \<Longrightarrow> fst (LeaseJob post host_name) = Inr (None, JObj [])"
    and "map_of kv ''return_code'' = None \<or> map_of kv ''return_code'' = Some (JStr ''SUCCESS'')
           \<Longrightarrow> fst (LeaseJob post host_name)
                 = (case map_of kv ''jobs'' of None \<Rightarrow> Inr (None, JObj []) | Some jobs \<Rightarrow> first_job jobs)"
  using assms
  by (auto simp: LeaseJob_def return_code_failed_def split: option.splits)

text \<open>
  Claim C10. \<^verbatim>\<open>LeaseJob\<close> returns \<^verbatim>\<open>(None, {})\<close> for an empty host name (without a
  request), for a response whose status is not ok, for a response object whose
  \<^verbatim>\<open>return_code\<close> is present and differs from \<^verbatim>\<open>"SUCCESS"\<close>, and, the return code
  being absent or \<^verbatim>\<open>"SUCCESS"\<close>, for a response object without \<^verbatim>\<open>jobs\<close> or with
  \<^verbatim>\<open>jobs\<close> empty or null. When \<^verbatim>\<open>jobs\<close> is a list whose first element is an object
  with a string \<^verbatim>\<open>test_name\<close>, it returns that name up to its first slash together
  with that first job.
\<close>

theorem LeaseJob_result:
  "(LeaseJob post [] = (Inr (None, JObj []), []))
   \<and> (host_name \<noteq> [] \<and> post host_name = Inr r \<longrightarrow>
        (status_code r \<noteq> status_ok \<longrightarrow> fst (LeaseJob post host_name) = Inr (None, JObj []))
      \<and> (status_code r = status_ok \<and> loads_text r = Inr (JObj kv) \<longrightarrow>
           (\<forall>rc. map_of kv ''return_code'' = Some rc \<and> rc \<noteq> JStr ''SUCCESS'' \<longrightarrow>
                 fst (LeaseJob post host_name) = Inr (None, JObj []))
         \<and> (map_of kv ''return_code'' = None \<or> map_of kv ''return_code'' = Some (JStr ''SUCCESS'') \<longrightarrow>
              (map_of kv ''jobs'' = None \<longrightarrow> fst (LeaseJob post host_name) = Inr (None, JObj []))
            \<and> (map_of kv ''jobs'' = Some (JArr []) \<longrightarrow>
                  fst (LeaseJob post host_name) = Inr (None, JObj []))
            \<and> (map_of kv ''jobs'' = Some JNull \<longrightarrow>
                  fst (LeaseJob post host_name) = Inr (None, JObj []))
            \<and> (\<forall>job rest t. map_of kv ''jobs'' = Some (JArr (JObj job # rest))
                    \<and> map_of job ''test_name'' = Some (JStr t) \<longrightarrow>
                  fst (LeaseJob post host_name)
                    = Inr (Some (takeWhile (\<lambda>c. c \<noteq> CHR ''/'') t), JObj job)))))"
proof (intro conjI impI allI)
  show "LeaseJob post [] = (Inr (None, JObj []), [])"
    by (simp add: LeaseJob_def)
next
  assume "host_name \<noteq> [] \<and> post host_name = Inr r" "status_code r \<noteq> status_ok"
  then show "fst (LeaseJob post host_name) = Inr (None, JObj [])"
    by (simp add: LeaseJob_def)
next
  fix rc
  assume "host_name \<noteq> [] \<and> post host_name = Inr r"
    "status_code r = status_ok \<and> loads_text r = Inr (JObj kv)"
    "map_of kv ''return_code'' = Some rc \<and> rc \<noteq> JStr ''SUCCESS''"
  then show "fst (LeaseJob post host_name) = Inr (None, JObj [])"
    using LeaseJob_ok_object(1)[of host_name post r kv rc] by simp
next
  assume a: "host_name \<noteq> [] \<and> post host_name = Inr r"
    "status_code r = status_ok \<and> loads_text r = Inr (JObj kv)"
    "map_of kv ''return_code'' = None \<or> map_of kv ''return_code'' = Some (JStr ''SUCCESS'')"
  assume "map_of kv ''jobs'' = None"
  then show "fst (LeaseJob post host_name) = Inr (None, JObj [])"
    using LeaseJob_ok_object(2)[of host_name post r kv] a by simp
next
  assume a: "host_name \<noteq> [] \<and> post host_name = Inr r"
    "status_code r = status_ok \<and> loads_text r = Inr (JObj kv)"
    "map_of kv ''return_code'' = None \<or> map_of kv ''return_code'' = Some (JStr ''SUCCESS'')"
  assume "map_of kv ''jobs'' = Some (JArr [])"
  then show "fst (LeaseJob post host_name) = Inr (None, JObj [])"
    using LeaseJob_ok_object(2)[of host_name post r kv] a by (simp add: first_job_def)
next
  assume a: "host_name \<noteq> [] \<and> post host_name = Inr r"
    "status_code r = status_ok \<and> loads_text r = Inr (JObj kv)"
    "map_of kv ''return_code'' = None \<or> map_of kv ''return_code'' = Some (JStr ''SUCCESS'')"
  assume "map_of kv ''jobs'' = Some JNull"
  then show "fst (LeaseJob post host_name) = Inr (None, JObj [])"
    using LeaseJob_ok_object(2)[of host_name post r kv] a by (simp add: first_job_def)
next
  fix job rest t
  assume a: "host_name \<noteq> [] \<and> post host_name = Inr r"
    "status_code r = status_ok \<and> loads_text r = Inr (JObj kv)"
    "map_of kv ''return_code'' = None \<or> map_of kv ''return_code'' = Some (JStr ''SUCCESS'')"
  assume "map_of kv ''jobs'' = Some (JArr (JObj job # rest)) \<and> map_of job ''test_name'' = Some (JStr t)"
  then show "fst (LeaseJob post host_name) = Inr (Some (takeWhile (\<lambda>c. c \<noteq> CHR ''/'') t), JObj job)"
    using LeaseJob_ok_object(2)[of host_name post r kv] a
    by (simp add: first_job_def job_result_def)
qed

theorem LeaseJob_result_witness:
  "''host1'' \<noteq> []
   \<and> LeaseJob example_post ''host1'' = (Inr (Some ''vts'', example_job), [EvPostLeaseJob ''host1''])
   \<and> fst (LeaseJob (\<lambda>h. Inr \<lparr> status_code = 500, loads_text = Inl (Exc ValueError ''No JSON object could be decoded'') \<rparr>) ''host1'')
        = Inr (None, JObj [])"
proof -
  let ?kv = "[(''return_code'', JStr ''SUCCESS''), (''jobs'', JArr [example_job])]"
  let ?r = "\<lparr> status_code = 200, loads_text = Inr (JObj ?kv) \<rparr>"
  let ?bad = "\<lparr> status_code = 500, loads_text = Inl (Exc ValueError ''No JSON object could be decoded'') \<rparr>"
  have p: "example_post ''host1'' = Inr ?r"
    by (simp add: example_post_def)
  have h: "''host1'' \<noteq> []" by simp
  have j: "map_of ?kv ''jobs'' = Some (JArr (JObj [(''test_name'', JStr ''vts/vts-hal''), (''device'', JStr ''sailfish'')] # []))"
    "map_of [(''test_name'', JStr ''vts/vts-hal''), (''device'', JStr ''sailfish'')] ''test_name'' = Some (JStr ''vts/vts-hal'')"
    "map_of ?kv ''return_code'' = Some (JStr ''SUCCESS'')"
    by (simp_all add: example_job_def)
  have "fst (LeaseJob example_post ''host1'')
          = Inr (Some (takeWhile (\<lambda>c. c \<noteq> CHR ''/'') ''vts/vts-hal''), example_job)"
    using LeaseJob_result[of example_post "''host1''" ?r ?kv] p h j
    by (simp add: status_ok_def example_job_def)
  moreover have "snd (LeaseJob example_post ''host1'') = [EvPostLeaseJob ''host1'']"
    by (simp add: LeaseJob_def example_post_def status_ok_def return_code_failed_def)
  moreover have "fst (LeaseJob (\<lambda>h. Inr ?bad) ''host1'') = Inr (None, JObj [])"
    using LeaseJob_result[of "\<lambda>h. Inr ?bad" "''host1''" ?bad] h
    by (simp add: status_ok_def)
  ultimately show ?thesis
    using h by (simp add: prod_eq_iff)
qed

end
